theory Spec2Isabelle
  imports Complex_Main
begin

section \<open>Python values exchanged over the bridge\<close>

text \<open>
  The bridge receives its arguments from \<^verbatim>\<open>json.loads\<close> and answers with
  \<^verbatim>\<open>json.dumps\<close>, so the values that travel through the handlers are the Python
  images of JSON: \<^verbatim>\<open>None\<close>, \<^verbatim>\<open>bool\<close>, \<^verbatim>\<open>int\<close>, \<^verbatim>\<open>float\<close>, \<^verbatim>\<open>str\<close>,
  \<^verbatim>\<open>list\<close> and \<^verbatim>\<open>dict\<close>.  A float is a finite real number, an infinity or a
  NaN (\<^verbatim>\<open>json.loads\<close> accepts \<^verbatim>\<open>Infinity\<close>, \<^verbatim>\<open>NaN\<close> and literals such as
  \<^verbatim>\<open>1e999\<close>).  A dict keeps its items as an association list read with
  \<open>map_of\<close>.
\<close>

datatype pyfloat = Finite real | PosInf | NegInf | NaN

datatype json =
    JNull
  | JBool bool
  | JInt int
  | JFloat pyfloat
  | JStr string
  | JArr "json list"
  | JObj "(string \<times> json) list"

text \<open>Python truthiness (\<^verbatim>\<open>if not x\<close>) of such a value.\<close>

fun truthy :: "json \<Rightarrow> bool" where
  "truthy JNull = False"
| "truthy (JBool b) = b"
| "truthy (JInt i) = (i \<noteq> 0)"
| "truthy (JFloat (Finite r)) = (r \<noteq> 0)"
| "truthy (JFloat _) = True"
| "truthy (JStr s) = (s \<noteq> [])"
| "truthy (JArr xs) = (xs \<noteq> [])"
| "truthy (JObj kvs) = (kvs \<noteq> [])"

text \<open>\<^verbatim>\<open>type(x).__name__\<close>, as it appears in Python's own error messages.\<close>

fun type_name :: "json \<Rightarrow> string" where
  "type_name JNull = ''NoneType''"
| "type_name (JBool _) = ''bool''"
| "type_name (JInt _) = ''int''"
| "type_name (JFloat _) = ''float''"
| "type_name (JStr _) = ''str''"
| "type_name (JArr _) = ''list''"
| "type_name (JObj _) = ''dict''"

text \<open>
  \<^verbatim>\<open>str(x)\<close>.  On a \<^verbatim>\<open>str\<close> it is the identity; the text Python prints for the
  other values (shortest float representation, nested reprs) is taken from the
  interpreter as the parameter \<open>str_of\<close>.
\<close>

definition py_str :: "(json \<Rightarrow> string) \<Rightarrow> json \<Rightarrow> string" where
  "py_str str_of v = (case v of JStr s \<Rightarrow> s | _ \<Rightarrow> str_of v)"

text \<open>\<^verbatim>\<open>d.get(k)\<close> and \<^verbatim>\<open>d.get(k, default)\<close> on a dict.\<close>

definition dict_get_default :: "(string \<times> json) list \<Rightarrow> string \<Rightarrow> json \<Rightarrow> json" where
  "dict_get_default kvs k d = (case map_of kvs k of None \<Rightarrow> d | Some v \<Rightarrow> v)"

definition dict_get :: "(string \<times> json) list \<Rightarrow> string \<Rightarrow> json" where
  "dict_get kvs k = dict_get_default kvs k JNull"

text \<open>\<^verbatim>\<open>isinstance(x, dict)\<close>, \<^verbatim>\<open>isinstance(x, str)\<close>, and \<^verbatim>\<open>x.get(k)\<close> read off a value.\<close>

fun is_dict :: "json \<Rightarrow> bool" where
  "is_dict (JObj kvs) = True"
| "is_dict _ = False"

fun is_str :: "json \<Rightarrow> bool" where
  "is_str (JStr x) = True"
| "is_str _ = False"

definition ref_field :: "json \<Rightarrow> string \<Rightarrow> json" where
  "ref_field ref k = (case ref of JObj kvs \<Rightarrow> dict_get kvs k | _ \<Rightarrow> JNull)"

text \<open>A text between single quotes, as f-strings and Python's messages write it.\<close>

definition quoted :: "string \<Rightarrow> string" where
  "quoted s = CHR 0x27 # s @ [CHR 0x27]"

section \<open>core/errors.py\<close>

text \<open>
  \<^verbatim>\<open>BridgeError\<close> and its three subclasses; each subclass fixes the code.  Every other
  exception (Python's own and the host application's) is a \<open>Builtin\<close> with its class
  and the text of \<^verbatim>\<open>str(e)\<close>.  Only subclasses of \<^verbatim>\<open>Exception\<close> are modelled:
  interpreter exits and keyboard interrupts are outside the model.
\<close>

datatype builtin =
  TypeError | ValueError | OverflowError | AttributeError | KeyError | UnboundLocalError
  | RuntimeError

datatype exn =
    ValidationError string "string option"
  | FusionAPIError string "string option"
  | ActionNotSupportedError string
  | Builtin builtin string

fun is_bridge_error :: "exn \<Rightarrow> bool" where
  "is_bridge_error (Builtin _ _) = False"
| "is_bridge_error _ = True"

fun code :: "exn \<Rightarrow> string" where
  "code (ValidationError m f) = ''E_BAD_ARGS''"
| "code (FusionAPIError m operation) = ''E_RUNTIME''"
| "code (ActionNotSupportedError action) = ''E_ACTION_UNSUPPORTED''"
| "code (Builtin k m) = []"

fun message :: "exn \<Rightarrow> string" where
  "message (ValidationError m f) = m"
| "message (FusionAPIError m operation) = m"
| "message (ActionNotSupportedError action) = ''Unknown action: '' @ action"
| "message (Builtin k m) = m"

text \<open>\<^verbatim>\<open>self.details\<close>: \<^verbatim>\<open>{"field": field}\<close>, \<^verbatim>\<open>{"operation": operation}\<close> or \<^verbatim>\<open>{}\<close>.\<close>

fun details :: "exn \<Rightarrow> (string \<times> json) list" where
  "details (ValidationError m f) =
     (case f of None \<Rightarrow> [] | Some x \<Rightarrow> if x = [] then [] else [(''field'', JStr x)])"
| "details (FusionAPIError m operation) =
     (case operation of None \<Rightarrow> []
      | Some x \<Rightarrow> if x = [] then [] else [(''operation'', JStr x)])"
| "details _ = []"

text \<open>\<^verbatim>\<open>str(e)\<close>: a \<^verbatim>\<open>BridgeError\<close> was initialised with \<^verbatim>\<open>f"{code}: {message}"\<close>.\<close>

fun str_exn :: "exn \<Rightarrow> string" where
  "str_exn (Builtin k m) = m"
| "str_exn e = code e @ '': '' @ message e"

fun is_ValidationError :: "exn \<Rightarrow> bool" where
  "is_ValidationError (ValidationError m f) = True"
| "is_ValidationError _ = False"

text \<open>
  Sequencing of steps that may raise: the first exception ends the sequence.
  \<^verbatim>\<open>d[k]\<close> raises \<^verbatim>\<open>KeyError\<close> on a missing key.
\<close>

definition exn_bind :: "exn + 'a \<Rightarrow> ('a \<Rightarrow> exn + 'b) \<Rightarrow> exn + 'b" where
  "exn_bind m f = (case m of Inl e \<Rightarrow> Inl e | Inr x \<Rightarrow> f x)"

definition dict_item :: "(string \<times> json) list \<Rightarrow> string \<Rightarrow> exn + json" where
  "dict_item kvs k =
     (case map_of kvs k of None \<Rightarrow> Inl (Builtin KeyError (quoted k)) | Some v \<Rightarrow> Inr v)"

section \<open>handlers/base.py\<close>

text \<open>
  A handler is its two abstract methods.  Both run against the host application, whose
  state \<open>'h\<close> they may read and change, and both may raise; the state reached when an
  exception is raised is kept, since nothing rolls it back.
\<close>

record ('a, 'v, 'r, 'h) handler =
  validate :: "'a \<Rightarrow> 'h \<Rightarrow> (exn + 'v) \<times> 'h"
  execute :: "'v \<Rightarrow> 'h \<Rightarrow> (exn + 'r) \<times> 'h"

text \<open>The two \<^verbatim>\<open>except\<close> clauses of \<^verbatim>\<open>BaseHandler.handle\<close>.\<close>

definition translate :: "exn \<Rightarrow> exn" where
  "translate e =
     (if is_ValidationError e then e
      else FusionAPIError (''Operation failed: '' @ str_exn e) None)"

definition handle :: "('a, 'v, 'r, 'h) handler \<Rightarrow> 'a \<Rightarrow> 'h \<Rightarrow> (exn + 'r) \<times> 'h" where
  "handle h args s =
     (case validate h args s of
        (Inl e, s1) \<Rightarrow> (Inl (translate e), s1)
      | (Inr validated_args, s1) \<Rightarrow>
          (case execute h validated_args s1 of
             (Inl e, s2) \<Rightarrow> (Inl (translate e), s2)
           | (Inr result, s2) \<Rightarrow> (Inr result, s2)))"

text \<open>
  \<open>execute (validate args)\<close> with exceptions propagating as Python propagates them and
  no \<^verbatim>\<open>try\<close> around it: the reference \<open>handle\<close> is compared with.
\<close>

definition execute_validate ::
  "('a, 'v, 'r, 'h) handler \<Rightarrow> 'a \<Rightarrow> 'h \<Rightarrow> (exn + 'r) \<times> 'h" where
  "execute_validate h args s =
     (case validate h args s of
        (Inl e, s1) \<Rightarrow> (Inl e, s1)
      | (Inr validated_args, s1) \<Rightarrow> execute h validated_args s1)"

section \<open>core/router.py\<close>

text \<open>
  \<^verbatim>\<open>HandlerRegistry._handlers\<close> is a dict from action names to handler instances.
  \<^verbatim>\<open>get_handler\<close> tests \<^verbatim>\<open>action not in self._handlers\<close>: a \<^verbatim>\<open>list\<close> or \<^verbatim>\<open>dict\<close>
  is unhashable, and any other value that is not a \<^verbatim>\<open>str\<close> equals no key.
\<close>

type_synonym 'h registry = "string \<rightharpoonup> (json, json, json, 'h) handler"

definition get_handler ::
  "(json \<Rightarrow> string) \<Rightarrow> 'h registry \<Rightarrow> json \<Rightarrow> exn + (json, json, json, 'h) handler" where
  "get_handler str_of reg action =
     (case action of
        JStr a \<Rightarrow>
          (case reg a of
             None \<Rightarrow> Inl (ActionNotSupportedError a)
           | Some h \<Rightarrow> Inr h)
      | JArr xs \<Rightarrow> Inl (Builtin TypeError (''unhashable type: '' @ quoted ''list''))
      | JObj kvs \<Rightarrow> Inl (Builtin TypeError (''unhashable type: '' @ quoted ''dict''))
      | _ \<Rightarrow> Inl (ActionNotSupportedError (py_str str_of action)))"

definition handle_action ::
  "(json \<Rightarrow> string) \<Rightarrow> 'h registry \<Rightarrow> json \<Rightarrow> json \<Rightarrow> 'h \<Rightarrow> (exn + json) \<times> 'h" where
  "handle_action str_of reg action args s =
     (case get_handler str_of reg action of
        Inl e \<Rightarrow> (Inl e, s)
      | Inr h \<Rightarrow> handle h args s)"

section \<open>services/validators.py\<close>

text \<open>
  Strings are sequences of code points below 256.  \<^verbatim>\<open>str.strip()\<close> removes the
  characters \<^verbatim>\<open>str.isspace()\<close> accepts from both ends; below 256 these are the codes
  9 to 13, 28 to 32, 133 and 160.  \<^verbatim>\<open>str.upper()\<close> is given on the letters a to z; no
  other character maps to a letter of a plane name.
\<close>

definition py_isspace :: "char \<Rightarrow> bool" where
  "py_isspace c =
     (let n = (of_char c :: nat)
      in (9 \<le> n \<and> n \<le> 13) \<or> (28 \<le> n \<and> n \<le> 32) \<or> n = 133 \<or> n = 160)"

definition py_strip :: "string \<Rightarrow> string" where
  "py_strip s = rev (dropWhile py_isspace (rev (dropWhile py_isspace s)))"

definition py_upper_char :: "char \<Rightarrow> char" where
  "py_upper_char c =
     (case map_of (zip ''abcdefghijklmnopqrstuvwxyz'' ''ABCDEFGHIJKLMNOPQRSTUVWXYZ'') c of
        Some u \<Rightarrow> u
      | None \<Rightarrow> c)"

definition py_upper :: "string \<Rightarrow> string" where
  "py_upper s = map py_upper_char s"

text \<open>\<^verbatim>\<open>sep.join(xs)\<close>.\<close>

fun join :: "string \<Rightarrow> string list \<Rightarrow> string" where
  "join sep [] = []"
| "join sep [x] = x"
| "join sep (x # y # ys) = x @ sep @ join sep (y # ys)"

definition ALLOWED_UNITS :: "string list" where
  "ALLOWED_UNITS = ['''', ''mm'', ''cm'', ''m'', ''in'', ''ft'', ''deg'']"

definition ALLOWED_PLANES :: "string list" where
  "ALLOWED_PLANES = [''XY'', ''YZ'', ''XZ'']"

definition validate_required_fields :: "(string \<times> json) list \<Rightarrow> string list \<Rightarrow> exn + unit" where
  "validate_required_fields args required =
     (let missing = filter (\<lambda>f. map_of args f = None) required
      in if missing \<noteq> [] then
           (if length missing = 1
            then Inl (ValidationError (''Missing required field: '' @ hd missing) None)
            else Inl (ValidationError (''Missing required fields: '' @ join '', '' missing) None))
         else Inr ())"

definition validate_unit :: "json \<Rightarrow> exn + unit" where
  "validate_unit unit =
     (case unit of
        JStr u \<Rightarrow>
          if u \<notin> set ALLOWED_UNITS
          then Inl (ValidationError
                 (''Invalid unit '' @ quoted u @ ''. Allowed units: '' @
                  join '', '' (map quoted ALLOWED_UNITS)) None)
          else Inr ()
      | _ \<Rightarrow>
          Inl (ValidationError
                 (''Invalid unit type: <class '' @ quoted (type_name unit) @ ''>'') None))"

definition validate_plane :: "json \<Rightarrow> exn + string" where
  "validate_plane plane =
     (case plane of
        JStr p \<Rightarrow>
          (let plane_upper = py_upper p
           in if plane_upper \<notin> set ALLOWED_PLANES
              then Inl (ValidationError
                     (''Invalid plane '' @ quoted p @ ''. Allowed planes: '' @
                      join '', '' ALLOWED_PLANES) None)
              else Inr plane_upper)
      | _ \<Rightarrow>
          Inl (Builtin AttributeError
                 (quoted (type_name plane) @ '' object has no attribute '' @ quoted ''upper'')))"

definition validate_non_empty_string :: "json \<Rightarrow> string \<Rightarrow> exn + string" where
  "validate_non_empty_string v field_name =
     (case v of
        JStr x \<Rightarrow>
          if py_strip x = []
          then Inl (ValidationError (field_name @ '' must be a non-empty string'') None)
          else Inr (py_strip x)
      | _ \<Rightarrow> Inl (ValidationError (field_name @ '' must be a non-empty string'') None))"

text \<open>
  \<^verbatim>\<open>int(value)\<close>.  A float is truncated towards zero; an infinity raises
  \<^verbatim>\<open>OverflowError\<close> and a NaN \<^verbatim>\<open>ValueError\<close>; \<^verbatim>\<open>None\<close>, a list and a dict raise
  \<^verbatim>\<open>TypeError\<close>.  What \<^verbatim>\<open>int\<close> makes of a \<^verbatim>\<open>str\<close> is the parameter \<open>int_of_str\<close>,
  \<open>None\<close> standing for the \<^verbatim>\<open>ValueError\<close> of a text that is no integer literal.
\<close>

definition py_trunc :: "real \<Rightarrow> int" where
  "py_trunc r = (if 0 \<le> r then \<lfloor>r\<rfloor> else \<lceil>r\<rceil>)"

definition py_int :: "(string \<Rightarrow> int option) \<Rightarrow> json \<Rightarrow> exn + int" where
  "py_int int_of_str v =
     (case v of
        JBool b \<Rightarrow> Inr (if b then 1 else 0)
      | JInt i \<Rightarrow> Inr i
      | JFloat (Finite r) \<Rightarrow> Inr (py_trunc r)
      | JFloat NaN \<Rightarrow> Inl (Builtin ValueError ''cannot convert float NaN to integer'')
      | JFloat _ \<Rightarrow> Inl (Builtin OverflowError ''cannot convert float infinity to integer'')
      | JStr x \<Rightarrow>
          (case int_of_str x of
             Some i \<Rightarrow> Inr i
           | None \<Rightarrow>
               Inl (Builtin ValueError (''invalid literal for int() with base 10: '' @ quoted x)))
      | _ \<Rightarrow>
          Inl (Builtin TypeError
                 (''int() argument must be a string, a bytes-like object or a real number, not ''
                  @ quoted (type_name v))))"

text \<open>
  \<^verbatim>\<open>validate_non_negative_int\<close>: the \<^verbatim>\<open>except (TypeError, ValueError)\<close> clause turns
  those two into a \<^verbatim>\<open>ValidationError\<close>; the \<^verbatim>\<open>ValidationError\<close> raised inside the
  \<^verbatim>\<open>try\<close> for a negative number is neither and passes; so does any other exception.
\<close>

definition validate_non_negative_int ::
  "(string \<Rightarrow> int option) \<Rightarrow> json \<Rightarrow> string \<Rightarrow> exn + int" where
  "validate_non_negative_int int_of_str v field_name =
     (case py_int int_of_str v of
        Inr num \<Rightarrow>
          if num < 0
          then Inl (ValidationError (field_name @ '' must be a non-negative integer'') None)
          else Inr num
      | Inl (Builtin TypeError m) \<Rightarrow>
          Inl (ValidationError (field_name @ '' must be a non-negative integer'') None)
      | Inl (Builtin ValueError m) \<Rightarrow>
          Inl (ValidationError (field_name @ '' must be a non-negative integer'') None)
      | Inl e \<Rightarrow> Inl e)"

section \<open>The host design and services/fusion\_context.py\<close>

text \<open>
  The part of the host application's object graph the modelled code reads: the user
  parameters of the active design and the sketches and bodies of its root component.
  A body carries an entity token besides its name, so that two bodies of the same name
  are different objects.  The state of the host is the active design, or \<open>None\<close> when
  \<^verbatim>\<open>app.activeProduct\<close> is empty or has no \<^verbatim>\<open>rootComponent\<close>.
\<close>

record parameter =
  param_name :: string
  param_expression :: string
  param_unit :: string
  param_comment :: string

record sketch =
  sketch_name :: string
  sketch_plane :: string

record brep_body =
  body_name :: string
  entity_token :: nat

record component =
  comp_name :: string
  sketches :: "sketch list"
  bRepBodies :: "brep_body list"

record design =
  userParameters :: "parameter list"
  rootComponent :: component

type_synonym host = "design option"

definition context_design :: "host \<Rightarrow> exn + design" where
  "context_design s =
     (case s of
        None \<Rightarrow> Inl (FusionAPIError ''No active design document'' None)
      | Some d \<Rightarrow> Inr d)"

definition root_component :: "host \<Rightarrow> exn + component" where
  "root_component s =
     (case context_design s of Inl e \<Rightarrow> Inl e | Inr d \<Rightarrow> Inr (rootComponent d))"

text \<open>The two collision checks of the validation service: loops over the host's lists.\<close>

fun check_parameter_name_loop :: "string \<Rightarrow> parameter list \<Rightarrow> exn + unit" where
  "check_parameter_name_loop name [] = Inr ()"
| "check_parameter_name_loop name (param # params) =
     (if param_name param = name
      then Inl (ValidationError (''Parameter '' @ quoted name @ '' already exists'') None)
      else check_parameter_name_loop name params)"

definition check_parameter_name_collision :: "string \<Rightarrow> design \<Rightarrow> exn + unit" where
  "check_parameter_name_collision name d =
     (if userParameters d \<noteq> [] then check_parameter_name_loop name (userParameters d)
      else Inr ())"

fun check_sketch_name_collision :: "string \<Rightarrow> sketch list \<Rightarrow> exn + unit" where
  "check_sketch_name_collision name [] = Inr ()"
| "check_sketch_name_collision name (sk # sks) =
     (if sketch_name sk = name
      then Inl (ValidationError (''Sketch '' @ quoted name @ '' already exists'') None)
      else check_sketch_name_collision name sks)"

section \<open>services/entity\_resolver.py\<close>

text \<open>The \<^verbatim>\<open>for\<close> loop of \<^verbatim>\<open>resolve_body_ref\<close>: the first body whose name is the value.\<close>

fun find_body :: "json \<Rightarrow> brep_body list \<Rightarrow> brep_body option" where
  "find_body v [] = None"
| "find_body v (b # bs) = (if JStr (body_name b) = v then Some b else find_body v bs)"

definition resolve_body_ref :: "(json \<Rightarrow> string) \<Rightarrow> host \<Rightarrow> json \<Rightarrow> exn + brep_body" where
  "resolve_body_ref str_of s ref =
     (case ref of
        JObj kvs \<Rightarrow>
          (let comp = dict_get kvs ''component'';
               body = dict_get kvs ''body''
           in if \<not> truthy comp \<or> \<not> truthy body
              then Inl (ValidationError
                     (''bodyRef requires '' @ quoted ''component'' @ '' and '' @ quoted ''body'')
                     None)
              else
                (case root_component s of
                   Inl e \<Rightarrow> Inl e
                 | Inr root_comp \<Rightarrow>
                     if comp \<noteq> JStr (comp_name root_comp)
                     then Inl (ValidationError
                            ''Only bodies in the root component are supported in v0'' None)
                     else
                       (case find_body body (bRepBodies root_comp) of
                          Some b \<Rightarrow> Inr b
                        | None \<Rightarrow>
                            Inl (ValidationError
                                   (''Body '' @ quoted (py_str str_of body) @
                                    '' not found in component '' @ quoted (py_str str_of comp))
                                   None))))
      | _ \<Rightarrow> Inl (ValidationError ''bodyRef must be an object'' None))"

section \<open>handlers/parameters.py and handlers/sketches.py\<close>

text \<open>
  The calls into the host that change the design are parameters of the model: the host
  decides what they do, whether they raise (\<open>Inl\<close> with the text of the exception) and
  what state they leave behind.
  \<^item> \<open>userParameters_add\<close>: \<^verbatim>\<open>design.userParameters.add(name, ValueInput.createByString(expression), unit, comment)\<close>;
  \<^item> \<open>sketches_add\<close>: \<^verbatim>\<open>root_comp.sketches.add(plane)\<close> on the construction plane of that
    name, returning a handle to the new sketch;
  \<^item> \<open>set_sketch_name\<close>, \<open>get_sketch_name\<close>: writing and reading \<^verbatim>\<open>sketch.name\<close> through
    the handle.
\<close>

record host_api =
  userParameters_add :: "json \<Rightarrow> json \<Rightarrow> json \<Rightarrow> json \<Rightarrow> design \<Rightarrow> (string + parameter) \<times> design"
  sketches_add :: "string \<Rightarrow> design \<Rightarrow> (string + nat) \<times> design"
  set_sketch_name :: "nat \<Rightarrow> json \<Rightarrow> design \<Rightarrow> (string + unit) \<times> design"
  get_sketch_name :: "nat \<Rightarrow> design \<Rightarrow> string"

definition create_parameter_validate ::
  "(json \<Rightarrow> string) \<Rightarrow> (string \<times> json) list \<Rightarrow> host \<Rightarrow> exn + (string \<times> json) list" where
  "create_parameter_validate str_of args s =
     exn_bind (validate_required_fields args [''name'', ''expression'', ''unit'']) (\<lambda>_.
     exn_bind (dict_item args ''name'') (\<lambda>raw_name.
     exn_bind (validate_non_empty_string raw_name ''name'') (\<lambda>name.
     exn_bind (dict_item args ''expression'') (\<lambda>raw_expression.
     exn_bind (dict_item args ''unit'') (\<lambda>unit.
       (let expression = py_str str_of raw_expression;
            comment = dict_get_default args ''comment'' (JStr [])
        in exn_bind (validate_unit unit) (\<lambda>_.
           if comment \<noteq> JNull \<and> \<not> is_str comment
           then Inl (ValidationError ''comment must be a string when provided'' None)
           else
             exn_bind (context_design s) (\<lambda>d.
             exn_bind (check_parameter_name_collision name d) (\<lambda>_.
               Inr [(''name'', JStr name), (''expression'', JStr expression), (''unit'', unit),
                    (''comment'', if truthy comment then comment else JStr [])])))))))))"

definition create_parameter_execute ::
  "host_api \<Rightarrow> (string \<times> json) list \<Rightarrow> host \<Rightarrow> (exn + (string \<times> json) list) \<times> host" where
  "create_parameter_execute api args s =
     (case exn_bind (context_design s) (\<lambda>d.
           exn_bind (dict_item args ''name'') (\<lambda>name.
           exn_bind (dict_item args ''expression'') (\<lambda>expression.
           exn_bind (dict_item args ''unit'') (\<lambda>unit.
           exn_bind (dict_item args ''comment'') (\<lambda>comment.
             Inr (userParameters_add api name expression unit comment d)))))) of
        Inl e \<Rightarrow> (Inl e, s)
      | Inr (Inl err, d') \<Rightarrow> (Inl (Builtin RuntimeError err), Some d')
      | Inr (Inr param, d') \<Rightarrow>
          (Inr ([(''name'', JStr (param_name param)),
                 (''expression'', JStr (param_expression param)),
                 (''unit'', JStr (param_unit param))] @
                (if param_comment param \<noteq> [] then [(''comment'', JStr (param_comment param))]
                 else [])),
           Some d'))"

definition CreateParameterHandler ::
  "(json \<Rightarrow> string) \<Rightarrow> host_api \<Rightarrow>
   ((string \<times> json) list, (string \<times> json) list, (string \<times> json) list, host) handler" where
  "CreateParameterHandler str_of api =
     \<lparr>validate = (\<lambda>args s. (create_parameter_validate str_of args s, s)),
      execute = create_parameter_execute api\<rparr>"

definition create_sketch_validate ::
  "(string \<times> json) list \<Rightarrow> host \<Rightarrow> exn + (string \<times> json) list" where
  "create_sketch_validate args s =
     exn_bind (validate_required_fields args [''plane'', ''name'']) (\<lambda>_.
     exn_bind (dict_item args ''plane'') (\<lambda>raw_plane.
     exn_bind (validate_plane raw_plane) (\<lambda>plane.
     exn_bind (dict_item args ''name'') (\<lambda>raw_name.
     exn_bind (validate_non_empty_string raw_name ''name'') (\<lambda>name.
     exn_bind (root_component s) (\<lambda>root_comp.
     exn_bind (check_sketch_name_collision name (sketches root_comp)) (\<lambda>_.
       Inr [(''plane'', JStr plane), (''name'', JStr name)])))))))"

text \<open>
  In \<^verbatim>\<open>execute\<close> the root component is that of the active design \<open>d\<close>, on which
  the host calls act.  The \<^verbatim>\<open>if\<close>/\<^verbatim>\<open>elif\<close> chain over the plane has no \<^verbatim>\<open>else\<close>:
  with any other plane the variable \<^verbatim>\<open>construction_plane\<close> is unbound when it is read.
\<close>

definition create_sketch_execute ::
  "host_api \<Rightarrow> (string \<times> json) list \<Rightarrow> host \<Rightarrow> (exn + (string \<times> json) list) \<times> host" where
  "create_sketch_execute api args s =
     (case exn_bind (context_design s) (\<lambda>d.
           exn_bind (dict_item args ''plane'') (\<lambda>plane.
             if plane = JStr ''XY'' then Inr (d, ''XY'')
             else if plane = JStr ''YZ'' then Inr (d, ''YZ'')
             else if plane = JStr ''XZ'' then Inr (d, ''XZ'')
             else Inl (Builtin UnboundLocalError
                    (''cannot access local variable '' @ quoted ''construction_plane'' @
                     '' where it is not associated with a value'')))) of
        Inl e \<Rightarrow> (Inl e, s)
      | Inr (d, construction_plane) \<Rightarrow>
          (case sketches_add api construction_plane d of
             (Inl err, d1) \<Rightarrow> (Inl (Builtin RuntimeError err), Some d1)
           | (Inr sk, d1) \<Rightarrow>
               (case dict_item args ''name'' of
                  Inl e \<Rightarrow> (Inl e, Some d1)
                | Inr name \<Rightarrow>
                    (case set_sketch_name api sk name d1 of
                       (Inl err, d2) \<Rightarrow> (Inl (Builtin RuntimeError err), Some d2)
                     | (Inr _, d2) \<Rightarrow>
                         (case dict_item args ''plane'' of
                            Inl e \<Rightarrow> (Inl e, Some d2)
                          | Inr plane \<Rightarrow>
                              (Inr [(''name'', JStr (get_sketch_name api sk d2)),
                                    (''plane'', plane)],
                               Some d2))))))"

definition CreateSketchHandler ::
  "host_api \<Rightarrow>
   ((string \<times> json) list, (string \<times> json) list, (string \<times> json) list, host) handler" where
  "CreateSketchHandler api =
     \<lparr>validate = (\<lambda>args s. (create_sketch_validate args s, s)),
      execute = create_sketch_execute api\<rparr>"

section \<open>The action names of the add-in and of the MCP server\<close>

text \<open>
  The actions \<^verbatim>\<open>HandlerRegistry._initialize_handlers\<close> registers, in the order of its
  \<^verbatim>\<open>register\<close> calls, and the registry they build from a handler for each name.
\<close>

definition registered_actions :: "string list" where
  "registered_actions =
     [''get_design_info'', ''create_parameter'', ''update_parameter'', ''create_sketch'',
      ''extrude_profile'',
      ''list_open_documents'', ''get_open_document_info'', ''open_document'',
      ''focus_document'', ''close_document'', ''backup_document'', ''get_document_type'',
      ''get_document_structure'',
      ''sketch_draw_line'', ''sketch_draw_circle'', ''sketch_draw_rectangle'',
      ''create_sketch_from_face'', ''project_edges'', ''set_is_construction'',
      ''revolve_profile'', ''combine_bodies'',
      ''rotate_body'',
      ''add_constraints'', ''add_dimension_distance'',
      ''measure_geometry'',
      ''trigger_ui_command'']"

definition register ::
  "(string \<Rightarrow> (json, json, json, 'h) handler) \<Rightarrow> string \<Rightarrow> 'h registry \<Rightarrow> 'h registry" where
  "register handler_class action reg = reg(action \<mapsto> handler_class action)"

definition initialize_handlers :: "(string \<Rightarrow> (json, json, json, 'h) handler) \<Rightarrow> 'h registry" where
  "initialize_handlers handler_class = fold (register handler_class) registered_actions Map.empty"

text \<open>The names of the tools \<^verbatim>\<open>list_tools\<close> returns, in its order.\<close>

definition list_tools :: "string list" where
  "list_tools =
     [''get_design_info'', ''create_parameter'', ''create_sketch'', ''sketch_draw_line'',
      ''sketch_draw_circle'', ''sketch_draw_rectangle'', ''extrude_profile'',
      ''revolve_profile'', ''combine_bodies'', ''rotate_body'',
      ''list_open_documents'', ''get_open_document_info'', ''open_document'',
      ''focus_document'', ''close_document'', ''backup_document'', ''get_document_type'',
      ''get_document_structure'', ''measure_geometry'', ''update_parameter'',
      ''add_constraints'', ''add_dimension_distance'', ''create_sketch_from_face'',
      ''project_edges'', ''set_is_construction'', ''trigger_ui_command'']"

text \<open>
  \<^verbatim>\<open>_TOOL_HANDLERS\<close>: each key with the action its handler function passes to
  \<^verbatim>\<open>bridge.execute_action\<close>.
\<close>

definition TOOL_HANDLERS :: "(string \<times> string) list" where
  "TOOL_HANDLERS =
     [(''get_design_info'', ''get_design_info''),
      (''create_parameter'', ''create_parameter''),
      (''create_sketch'', ''create_sketch''),
      (''sketch_draw_line'', ''sketch_draw_line''),
      (''sketch_draw_circle'', ''sketch_draw_circle''),
      (''sketch_draw_rectangle'', ''sketch_draw_rectangle''),
      (''extrude_profile'', ''extrude_profile''),
      (''list_open_documents'', ''list_open_documents''),
      (''get_open_document_info'', ''get_open_document_info''),
      (''open_document'', ''open_document''),
      (''focus_document'', ''focus_document''),
      (''close_document'', ''close_document''),
      (''backup_document'', ''backup_document''),
      (''get_document_type'', ''get_document_type''),
      (''get_document_structure'', ''get_document_structure''),
      (''measure_geometry'', ''measure_geometry''),
      (''update_parameter'', ''update_parameter''),
      (''add_constraints'', ''add_constraints''),
      (''add_dimension_distance'', ''add_dimension_distance''),
      (''revolve_profile'', ''revolve_profile''),
      (''combine_bodies'', ''combine_bodies''),
      (''rotate_body'', ''rotate_body''),
      (''create_sketch_from_face'', ''create_sketch_from_face''),
      (''project_edges'', ''project_edges''),
      (''set_is_construction'', ''set_is_construction''),
      (''trigger_ui_command'', ''trigger_ui_command'')]"

section \<open>FusionMCPBridge.py\<close>

text \<open>
  What the request handler reads from \<^verbatim>\<open>config.py\<close> at request time:
  \<^verbatim>\<open>_cfg_auth_token()\<close> (\<^verbatim>\<open>None\<close> disables the check), \<^verbatim>\<open>_cfg_version()\<close> and
  \<^verbatim>\<open>_is_dev_reload_enabled()\<close>.
\<close>

record config =
  BRIDGE_AUTH_TOKEN :: "string option"
  BRIDGE_VERSION :: string
  dev_reload_enabled :: bool

text \<open>
  A request as \<^verbatim>\<open>http.server\<close> and the standard library hand it to the handler, each
  field the outcome of the library call the handler makes:
  \<^item> \<open>url_path\<close>: \<^verbatim>\<open>urlparse(self.path).path\<close>, or the text of the \<^verbatim>\<open>ValueError\<close> it raises;
  \<^item> \<open>x_bridge_token\<close>: \<^verbatim>\<open>self.headers.get("X-Bridge-Token")\<close>;
  \<^item> \<open>content_length\<close>: \<^verbatim>\<open>int(self.headers.get("Content-Length", 0))\<close>, or the text of
    the \<^verbatim>\<open>ValueError\<close>;
  \<^item> \<open>payload\<close>: \<^verbatim>\<open>json.loads(self.rfile.read(content_length).decode("utf-8"))\<close>, or the
    error of the decoding step that fails.
\<close>

datatype decode_error = UnicodeDecodeError string | JSONDecodeError string

record request =
  url_path :: "string + string"
  x_bridge_token :: "string option"
  content_length :: "string + int"
  payload :: "decode_error + json"

record response =
  status_code :: int
  body :: json

text \<open>
  The responses written to the connection are collected in the order they are sent.
  \<^verbatim>\<open>_send_error\<close> ignores the status it is given: it always sends 200.
\<close>

definition send_json_response :: "int \<Rightarrow> json \<Rightarrow> response list \<Rightarrow> response list" where
  "send_json_response status data out = out @ [\<lparr>status_code = status, body = data\<rparr>]"

definition send_error ::
  "int \<Rightarrow> string \<Rightarrow> string \<Rightarrow> (string \<times> json) list \<Rightarrow> json \<Rightarrow> response list \<Rightarrow> response list" where
  "send_error status c m dets request_id out =
     send_json_response 200
       (JObj ([(''status'', JStr ''error''),
               (''error'', JObj ([(''code'', JStr c), (''message'', JStr m)] @
                                 (if dets \<noteq> [] then [(''details'', JObj dets)] else [])))] @
              (if truthy request_id then [(''id'', request_id)] else [])))
       out"

definition check_auth :: "config \<Rightarrow> request \<Rightarrow> response list \<Rightarrow> bool \<times> response list" where
  "check_auth cfg req out =
     (case BRIDGE_AUTH_TOKEN cfg of
        None \<Rightarrow> (True, out)
      | Some auth_token \<Rightarrow>
          if x_bridge_token req \<noteq> Some auth_token
          then (False, send_error 200 ''E_UNAUTHORIZED''
                         ''Invalid or missing X-Bridge-Token header'' [] JNull out)
          else (True, out))"

text \<open>
  \<^verbatim>\<open>do_GET\<close>.  \<open>fusion\<close> is the dict \<^verbatim>\<open>get_fusion_state()\<close> returns (it catches every
  exception itself).
\<close>

definition do_GET :: "config \<Rightarrow> json \<Rightarrow> request \<Rightarrow> response list \<Rightarrow> response list" where
  "do_GET cfg fusion req out =
     (case check_auth cfg req out of
        (False, out1) \<Rightarrow> out1
      | (True, out1) \<Rightarrow>
          (case url_path req of
             Inl err \<Rightarrow>
               send_json_response 500
                 (JObj [(''status'', JStr ''error''),
                        (''error'', JObj [(''code'', JStr ''E_INTERNAL''), (''message'', JStr err)])])
                 out1
           | Inr p \<Rightarrow>
               if p = ''/health''
               then send_json_response 200
                      (JObj [(''status'', JStr ''ok''),
                             (''version'', JStr (BRIDGE_VERSION cfg)),
                             (''fusion'', fusion)])
                      out1
               else send_json_response 404
                      (JObj [(''status'', JStr ''error''),
                             (''error'', JObj [(''code'', JStr ''E_NOT_FOUND''),
                                               (''message'', JStr ''Endpoint not found'')])])
                      out1))"

text \<open>
  The inner \<^verbatim>\<open>try\<close> of \<^verbatim>\<open>do_POST\<close>: the call of the registry and the four
  \<^verbatim>\<open>except\<close> clauses, in their order.
\<close>

definition respond_action ::
  "json \<Rightarrow> (exn + json) \<Rightarrow> response list \<Rightarrow> response list" where
  "respond_action request_id outcome out =
     (case outcome of
        Inr result \<Rightarrow>
          send_json_response 200
            (JObj ([(''status'', JStr ''ok''), (''result'', result)] @
                   (if truthy request_id then [(''id'', request_id)] else [])))
            out
      | Inl (ActionNotSupportedError a) \<Rightarrow>
          send_error 200 (code (ActionNotSupportedError a)) (message (ActionNotSupportedError a))
            [] request_id out
      | Inl (ValidationError m f) \<Rightarrow>
          send_error 200 (code (ValidationError m f)) (message (ValidationError m f))
            (details (ValidationError m f)) request_id out
      | Inl (FusionAPIError m operation) \<Rightarrow>
          send_error 200 (code (FusionAPIError m operation)) (message (FusionAPIError m operation))
            (details (FusionAPIError m operation)) request_id out
      | Inl (Builtin k m) \<Rightarrow>
          send_error 200 ''E_RUNTIME'' (str_exn (Builtin k m)) [] request_id out)"

text \<open>
  The \<^verbatim>\<open>/v1/execute\<close> part of \<^verbatim>\<open>do_POST\<close>, from the read of \<^verbatim>\<open>Content-Length\<close> on.
  An exception outside the inner \<^verbatim>\<open>try\<close> reaches the outer clauses: a
  \<^verbatim>\<open>JSONDecodeError\<close> gives \<^verbatim>\<open>E_BAD_JSON\<close>, anything else \<^verbatim>\<open>E_RUNTIME\<close> with the request
  id \<^verbatim>\<open>None\<close> (either \<^verbatim>\<open>req\<close> is not bound yet, or it is not a dict and
  \<^verbatim>\<open>req.get("id")\<close> raises again).
\<close>

definition execute_endpoint ::
  "(json \<Rightarrow> string) \<Rightarrow> 'h registry \<Rightarrow> request \<Rightarrow> 'h \<Rightarrow> response list \<Rightarrow> response list \<times> 'h" where
  "execute_endpoint str_of reg req s out =
     (case content_length req of
        Inl err \<Rightarrow> (send_error 200 ''E_RUNTIME'' err [] JNull out, s)
      | Inr n \<Rightarrow>
          if n \<le> 0 then (send_error 200 ''E_BAD_ARGS'' ''Missing request body'' [] JNull out, s)
          else
            (case payload req of
               Inl (JSONDecodeError err) \<Rightarrow>
                 (send_error 200 ''E_BAD_JSON'' (''Invalid JSON: '' @ err) [] JNull out, s)
             | Inl (UnicodeDecodeError err) \<Rightarrow>
                 (send_error 200 ''E_RUNTIME'' err [] JNull out, s)
             | Inr (JObj kvs) \<Rightarrow>
                 (let action = dict_get kvs ''action'';
                      args = dict_get_default kvs ''args'' (JObj []);
                      request_id = dict_get kvs ''id''
                  in if \<not> truthy action
                     then (send_error 200 ''E_BAD_ARGS''
                             (''Missing '' @ quoted ''action'' @ '' field'') [] request_id out, s)
                     else
                       (case handle_action str_of reg action args s of
                          (outcome, s') \<Rightarrow> (respond_action request_id outcome out, s')))
             | Inr other \<Rightarrow>
                 (send_error 200 ''E_RUNTIME''
                    (quoted (type_name other) @ '' object has no attribute '' @ quoted ''get'')
                    [] JNull out, s)))"

text \<open>
  \<^verbatim>\<open>do_POST\<close>.  \<open>reload\<close> is the outcome of \<^verbatim>\<open>_reload_and_rebuild_registry()\<close> should
  the request ask for it: a fresh registry, or the text of the exception.  The result is
  the responses sent, the registry bound to the handler class afterwards and the host
  state.
\<close>

definition do_POST ::
  "(json \<Rightarrow> string) \<Rightarrow> config \<Rightarrow> (string + 'h registry) \<Rightarrow> 'h registry \<Rightarrow> request \<Rightarrow> 'h \<Rightarrow>
   response list \<Rightarrow> response list \<times> 'h registry \<times> 'h" where
  "do_POST str_of cfg reload reg req s out =
     (case check_auth cfg req out of
        (False, out1) \<Rightarrow> (out1, reg, s)
      | (True, out1) \<Rightarrow>
          (case url_path req of
             Inl err \<Rightarrow> (send_error 200 ''E_RUNTIME'' err [] JNull out1, reg, s)
           | Inr p \<Rightarrow>
               if p = ''/dev/reload'' then
                 (if \<not> dev_reload_enabled cfg
                  then (send_error 200 ''E_UNAUTHORIZED''
                          ''Dev reload disabled (set BRIDGE_DEV_RELOAD=1 or config.DEV_RELOAD_ENABLED=True)''
                          [] JNull out1, reg, s)
                  else
                    (case reload of
                       Inl err \<Rightarrow> (send_error 200 ''E_RUNTIME'' err [] JNull out1, reg, s)
                     | Inr new_registry \<Rightarrow>
                         (send_json_response 200
                            (JObj [(''status'', JStr ''ok''), (''reloaded'', JBool True)]) out1,
                          new_registry, s)))
               else if p \<noteq> ''/v1/execute''
               then (send_error 200 ''E_NOT_FOUND'' ''Endpoint not found'' [] JNull out1, reg, s)
               else
                 (case execute_endpoint str_of reg req s out1 of
                    (out2, s') \<Rightarrow> (out2, reg, s'))))"

text \<open>Reading a response: the fields of its body and the code of its error object.\<close>

definition body_field :: "response \<Rightarrow> string \<Rightarrow> json option" where
  "body_field r k = (case body r of JObj kvs \<Rightarrow> map_of kvs k | _ \<Rightarrow> None)"

definition error_field :: "response \<Rightarrow> string \<Rightarrow> json option" where
  "error_field r k =
     (case body_field r ''error'' of Some (JObj err) \<Rightarrow> map_of err k | _ \<Rightarrow> None)"

text \<open>The four codes of the error taxonomy, and the three more the server sends.\<close>

definition taxonomy_codes :: "string list" where
  "taxonomy_codes = [''E_BAD_ARGS'', ''E_RUNTIME'', ''E_ACTION_UNSUPPORTED'', ''E_UNAUTHORIZED'']"

definition server_codes :: "string list" where
  "server_codes = taxonomy_codes @ [''E_NOT_FOUND'', ''E_BAD_JSON'', ''E_INTERNAL'']"

text \<open>The two shapes of a response body the bridge promises.\<close>

definition ok_response :: "response \<Rightarrow> json \<Rightarrow> bool" where
  "ok_response r result =
     (body_field r ''status'' = Some (JStr ''ok'') \<and> body_field r ''result'' = Some result)"

definition error_response :: "response \<Rightarrow> bool" where
  "error_response r =
     (body_field r ''status'' = Some (JStr ''error'') \<and>
      (case (error_field r ''code'', error_field r ''message'') of
         (Some (JStr c), Some (JStr m)) \<Rightarrow> True
       | _ \<Rightarrow> False))"

definition sent_codes :: "response list \<Rightarrow> json option list" where
  "sent_codes out = map (\<lambda>r. error_field r ''code'') out"

text \<open>A response carries no error code outside the list \<open>cs\<close>.\<close>

definition codes_within :: "string list \<Rightarrow> response \<Rightarrow> bool" where
  "codes_within cs r =
     (case error_field r ''code'' of None \<Rightarrow> True | Some c \<Rightarrow> c \<in> JStr ` set cs)"

text \<open>
  A response carries one of the codes \<open>cs\<close>; and a response is either an \<^verbatim>\<open>ok\<close> answer
  with no error object, or an \<^verbatim>\<open>error\<close> answer that carries one of the codes \<open>cs\<close>.
\<close>

definition carries_code :: "string list \<Rightarrow> response \<Rightarrow> bool" where
  "carries_code cs r =
     (case error_field r ''code'' of Some (JStr c) \<Rightarrow> c \<in> set cs | _ \<Rightarrow> False)"

definition status_and_code :: "string list \<Rightarrow> response \<Rightarrow> bool" where
  "status_and_code cs r =
     (body_field r ''status'' = Some (JStr ''ok'') \<and> error_field r ''code'' = None \<or>
      body_field r ''status'' = Some (JStr ''error'') \<and> carries_code cs r)"

section \<open>Examples\<close>

text \<open>
  A handler over a host that only counts the calls made to it: \<open>validate\<close> rejects
  \<^verbatim>\<open>None\<close>, \<open>execute\<close> fails in the host on a falsy argument and echoes any other.
\<close>

definition counting_handler :: "(json, json, json, nat) handler" where
  "counting_handler =
     \<lparr>validate = (\<lambda>a n. (if a = JNull then Inl (ValidationError ''args required'' None)
                              else Inr a, Suc n)),
      execute = (\<lambda>v n. (if truthy v then Inr v
                             else Inl (Builtin RuntimeError ''host failure''), Suc n))\<rparr>"

definition sample_registry :: "nat registry" where
  "sample_registry = [''echo'' \<mapsto> counting_handler]"

text \<open>
  \<^verbatim>\<open>str()\<close> for the examples, which apply it to \<^verbatim>\<open>None\<close>, booleans and strings only.
\<close>

fun example_str :: "json \<Rightarrow> string" where
  "example_str (JStr s) = s"
| "example_str JNull = ''None''"
| "example_str (JBool b) = (if b then ''True'' else ''False'')"
| "example_str v = []"

text \<open>The configuration of \<^verbatim>\<open>config.py\<close> as shipped, and one with a token set.\<close>

definition shipped_config :: config where
  "shipped_config =
     \<lparr>BRIDGE_AUTH_TOKEN = None, BRIDGE_VERSION = ''0.1.0'', dev_reload_enabled = True\<rparr>"

definition token_config :: config where
  "token_config = shipped_config\<lparr>BRIDGE_AUTH_TOKEN := Some ''s3cret''\<rparr>"

text \<open>Requests: a JSON body posted to a path, and a body that is not JSON.\<close>

definition post_json :: "string \<Rightarrow> json \<Rightarrow> request" where
  "post_json p j =
     \<lparr>url_path = Inr p, x_bridge_token = None, content_length = Inr 64, payload = Inr j\<rparr>"

definition post_text :: "string \<Rightarrow> request" where
  "post_text p =
     \<lparr>url_path = Inr p, x_bridge_token = None, content_length = Inr 9,
      payload = Inl (JSONDecodeError ''Expecting value: line 1 column 1 (char 0)'')\<rparr>"

definition get_request :: "string + string \<Rightarrow> request" where
  "get_request p =
     \<lparr>url_path = p, x_bridge_token = None, content_length = Inr 0,
      payload = Inl (JSONDecodeError ''Expecting value: line 1 column 1 (char 0)'')\<rparr>"

definition call :: "string \<Rightarrow> json \<Rightarrow> json" where
  "call action args = JObj [(''action'', JStr action), (''args'', args)]"

text \<open>What \<^verbatim>\<open>get_fusion_state()\<close> reports when no document is open.\<close>

definition idle_fusion :: json where
  "idle_fusion =
     JObj [(''running'', JBool True), (''documentName'', JStr ''No active document''),
           (''units'', JStr ''mm'')]"

text \<open>
  A design with one user parameter, one sketch and three bodies, two of them of the same
  name; references to bodies by component and body name.
\<close>

definition bracket_design :: design where
  "bracket_design =
     \<lparr>userParameters =
        [\<lparr>param_name = ''width'', param_expression = ''10 mm'', param_unit = ''mm'',
          param_comment = []\<rparr>],
      rootComponent =
        \<lparr>comp_name = ''Bracket'',
         sketches = [\<lparr>sketch_name = ''Base'', sketch_plane = ''XY''\<rparr>],
         bRepBodies =
           [\<lparr>body_name = ''Body1'', entity_token = 1\<rparr>,
            \<lparr>body_name = ''Plate'', entity_token = 2\<rparr>,
            \<lparr>body_name = ''Plate'', entity_token = 3\<rparr>]\<rparr>\<rparr>"

definition body_ref :: "string \<Rightarrow> string \<Rightarrow> json" where
  "body_ref cname bname = JObj [(''component'', JStr cname), (''body'', JStr bname)]"

text \<open>
  A host that keeps its parameters and sketches in the lists of the design: a new sketch
  is appended under the name \<^verbatim>\<open>Sketch\<close> and renamed in place.
\<close>

definition list_api :: host_api where
  "list_api =
     \<lparr>userParameters_add = (\<lambda>name expression unit comment d.
        (Inr \<lparr>param_name = example_str name, param_expression = example_str expression,
              param_unit = example_str unit, param_comment = example_str comment\<rparr>,
         d\<lparr>userParameters := userParameters d @
              [\<lparr>param_name = example_str name, param_expression = example_str expression,
                param_unit = example_str unit, param_comment = example_str comment\<rparr>]\<rparr>)),
      sketches_add = (\<lambda>plane d.
        (Inr (length (sketches (rootComponent d))),
         d\<lparr>rootComponent := (rootComponent d)
              \<lparr>sketches := sketches (rootComponent d) @
                 [\<lparr>sketch_name = ''Sketch'', sketch_plane = plane\<rparr>]\<rparr>\<rparr>)),
      set_sketch_name = (\<lambda>sk name d.
        (Inr (),
         d\<lparr>rootComponent := (rootComponent d)
              \<lparr>sketches := (sketches (rootComponent d))
                 [sk := (sketches (rootComponent d) ! sk)\<lparr>sketch_name := example_str name\<rparr>]\<rparr>\<rparr>)),
      get_sketch_name = (\<lambda>sk d. sketch_name (sketches (rootComponent d) ! sk))\<rparr>"

section \<open>Properties of the dispatch\<close>

lemma translate_cases:
  "translate e = e \<and> is_ValidationError e \<or>
   translate e = FusionAPIError (''Operation failed: '' @ str_exn e) None \<and> \<not> is_ValidationError e"
  by (simp add: translate_def)

lemma code_translate:
  "code (translate e) = (if is_ValidationError e then ''E_BAD_ARGS'' else ''E_RUNTIME'')"
  by (cases e) (simp_all add: translate_def)

lemma handle_eq_execute_validate:
  "handle h args s =
     (case execute_validate h args s of
        (Inl e, s') \<Rightarrow> (Inl (translate e), s')
      | (Inr r, s') \<Rightarrow> (Inr r, s'))"
  by (simp add: handle_def execute_validate_def split: prod.splits sum.splits)

lemma handle_error_code:
  assumes "handle h args s = (Inl e, s')"
  shows "code e = ''E_BAD_ARGS'' \<or> code e = ''E_RUNTIME''"
proof -
  from assms obtain e0 where "e = translate e0"
    by (auto simp: handle_def split: prod.splits sum.splits)
  then show ?thesis by (simp add: code_translate)
qed

subsection \<open>BaseHandler.handle\<close>

text \<open>
  C4.  For every handler and every argument, \<open>handle\<close> is \<open>execute\<close> after
  \<open>validate\<close>: a result is returned as it is; a \<^verbatim>\<open>ValidationError\<close> raised by either
  method propagates unchanged, with code \<^verbatim>\<open>E_BAD_ARGS\<close>; every other exception becomes a
  \<^verbatim>\<open>FusionAPIError\<close> with code \<^verbatim>\<open>E_RUNTIME\<close> whose message is \<^verbatim>\<open>Operation failed: \<close>
  followed by the text of the exception.  The host state reached is the one that a single
  run of \<open>validate\<close> and \<open>execute\<close> reaches, so nothing is run twice.
\<close>

theorem handle_execute_validate:
  "(\<forall>r s'. execute_validate h args s = (Inr r, s') \<longrightarrow> handle h args s = (Inr r, s')) \<and>
   (\<forall>e s'. execute_validate h args s = (Inl e, s') \<and> is_ValidationError e \<longrightarrow>
      handle h args s = (Inl e, s') \<and> code e = ''E_BAD_ARGS'') \<and>
   (\<forall>e s'. execute_validate h args s = (Inl e, s') \<and> \<not> is_ValidationError e \<longrightarrow>
      (\<exists>e'. handle h args s = (Inl e', s') \<and>
         e' = FusionAPIError (''Operation failed: '' @ str_exn e) None \<and>
         code e' = ''E_RUNTIME'' \<and>
         message e' = ''Operation failed: '' @ str_exn e))"
proof (intro conjI allI impI)
  fix r s' assume "execute_validate h args s = (Inr r, s')"
  then show "handle h args s = (Inr r, s')"
    by (simp add: handle_eq_execute_validate)
next
  fix e s' assume a: "execute_validate h args s = (Inl e, s') \<and> is_ValidationError e"
  then show "handle h args s = (Inl e, s')"
    by (simp add: handle_eq_execute_validate translate_def)
  from a show "code e = ''E_BAD_ARGS''"
    by (cases e) simp_all
next
  fix e s' assume a: "execute_validate h args s = (Inl e, s') \<and> \<not> is_ValidationError e"
  then have "handle h args s = (Inl (FusionAPIError (''Operation failed: '' @ str_exn e) None), s')"
    by (simp add: handle_eq_execute_validate translate_def)
  then show "\<exists>e'. handle h args s = (Inl e', s') \<and>
         e' = FusionAPIError (''Operation failed: '' @ str_exn e) None \<and>
         code e' = ''E_RUNTIME'' \<and>
         message e' = ''Operation failed: '' @ str_exn e"
    by simp
qed

theorem handle_execute_validate_witness:
  "handle counting_handler (JInt 7) 0 = (Inr (JInt 7), 2) \<and>
   handle counting_handler JNull 0 = (Inl (ValidationError ''args required'' None), 1) \<and>
   handle counting_handler (JInt 0) 0 =
     (Inl (FusionAPIError ''Operation failed: host failure'' None), 2)"
proof -
  have ok: "execute_validate counting_handler (JInt 7) 0 = (Inr (JInt 7), 2)"
    by (simp add: execute_validate_def counting_handler_def)
  have bad: "execute_validate counting_handler JNull 0 =
               (Inl (ValidationError ''args required'' None), 1) \<and>
             is_ValidationError (ValidationError ''args required'' None)"
    by (simp add: execute_validate_def counting_handler_def)
  have run: "execute_validate counting_handler (JInt 0) 0 =
               (Inl (Builtin RuntimeError ''host failure''), 2) \<and>
             \<not> is_ValidationError (Builtin RuntimeError ''host failure'')"
    by (simp add: execute_validate_def counting_handler_def)
  from handle_execute_validate [of counting_handler "JInt 7" 0] ok
  have 1: "handle counting_handler (JInt 7) 0 = (Inr (JInt 7), 2)" by blast
  from handle_execute_validate [of counting_handler JNull 0] bad
  have 2: "handle counting_handler JNull 0 = (Inl (ValidationError ''args required'' None), 1)"
    by blast
  from handle_execute_validate [of counting_handler "JInt 0" 0] run
  have 3: "handle counting_handler (JInt 0) 0 =
             (Inl (FusionAPIError (''Operation failed: '' @ str_exn (Builtin RuntimeError ''host failure'')) None), 2)"
    by blast
  from 1 2 3 show ?thesis by simp
qed

subsection \<open>HandlerRegistry.handle\_action\<close>

lemma handle_not_unsupported:
  "handle h args s = (Inl e, s') \<Longrightarrow> code e \<noteq> ''E_ACTION_UNSUPPORTED''"
  by (drule handle_error_code) auto

text \<open>
  C3.  For every action string \<open>a\<close> and every argument: when \<open>a\<close> is not a key of the
  handler map, \<open>handle_action\<close> raises the error with code \<^verbatim>\<open>E_ACTION_UNSUPPORTED\<close> and
  message \<^verbatim>\<open>Unknown action: a\<close>, leaving the host untouched; when it is a key, the outcome
  is that of the registered handler's \<open>handle\<close> on the argument; and an error with that
  code is raised only in the first case.
\<close>

theorem handle_action_dispatch:
  "(reg a = None \<longrightarrow>
      (\<exists>e. handle_action str_of reg (JStr a) args s = (Inl e, s) \<and>
           code e = ''E_ACTION_UNSUPPORTED'' \<and> message e = ''Unknown action: '' @ a)) \<and>
   (\<forall>h. reg a = Some h \<longrightarrow> handle_action str_of reg (JStr a) args s = handle h args s) \<and>
   ((\<exists>e s'. handle_action str_of reg (JStr a) args s = (Inl e, s') \<and>
             code e = ''E_ACTION_UNSUPPORTED'') \<longleftrightarrow> a \<notin> dom reg)"
proof (intro conjI allI impI)
  assume "reg a = None"
  then have "handle_action str_of reg (JStr a) args s = (Inl (ActionNotSupportedError a), s)"
    by (simp add: handle_action_def get_handler_def)
  then show "\<exists>e. handle_action str_of reg (JStr a) args s = (Inl e, s) \<and>
           code e = ''E_ACTION_UNSUPPORTED'' \<and> message e = ''Unknown action: '' @ a"
    by simp
next
  fix h assume "reg a = Some h"
  then show "handle_action str_of reg (JStr a) args s = handle h args s"
    by (simp add: handle_action_def get_handler_def)
next
  show "(\<exists>e s'. handle_action str_of reg (JStr a) args s = (Inl e, s') \<and>
             code e = ''E_ACTION_UNSUPPORTED'') \<longleftrightarrow> a \<notin> dom reg"
  proof (cases "reg a")
    case None
    then have "handle_action str_of reg (JStr a) args s = (Inl (ActionNotSupportedError a), s)"
      by (simp add: handle_action_def get_handler_def)
    moreover have "a \<notin> dom reg" using None by (simp add: domIff)
    ultimately show ?thesis by simp
  next
    case (Some h)
    then have "handle_action str_of reg (JStr a) args s = handle h args s"
      by (simp add: handle_action_def get_handler_def)
    moreover have "a \<in> dom reg" using Some by (simp add: domIff)
    ultimately show ?thesis using handle_not_unsupported [of h args s] by auto
  qed
qed

theorem handle_action_dispatch_witness:
  "handle_action (\<lambda>v. []) sample_registry (JStr ''rotate'') (JInt 7) 0 =
     (Inl (ActionNotSupportedError ''rotate''), 0) \<and>
   handle_action (\<lambda>v. []) sample_registry (JStr ''echo'') (JInt 7) 0 = (Inr (JInt 7), 2)"
proof -
  have none: "sample_registry ''rotate'' = None"
    by (simp add: sample_registry_def)
  have some: "sample_registry ''echo'' = Some counting_handler"
    by (simp add: sample_registry_def)
  from handle_action_dispatch [of sample_registry "''rotate''" "\<lambda>v. []" "JInt 7" 0] none
  obtain e where e: "handle_action (\<lambda>v. []) sample_registry (JStr ''rotate'') (JInt 7) 0 = (Inl e, 0)"
    by blast
  have 1: "handle_action (\<lambda>v. []) sample_registry (JStr ''rotate'') (JInt 7) 0 =
             (Inl (ActionNotSupportedError ''rotate''), 0)"
    by (simp add: handle_action_def get_handler_def none)
  from handle_action_dispatch [of sample_registry "''echo''" "\<lambda>v. []" "JInt 7" 0] some
  have "handle_action (\<lambda>v. []) sample_registry (JStr ''echo'') (JInt 7) 0 =
          handle counting_handler (JInt 7) 0"
    by blast
  then have 2: "handle_action (\<lambda>v. []) sample_registry (JStr ''echo'') (JInt 7) 0 = (Inr (JInt 7), 2)"
    by (simp add: handle_def counting_handler_def)
  from 1 2 show ?thesis by simp
qed

section \<open>Properties of the HTTP server\<close>

lemma send_error_shape:
  "\<exists>r. send_error st c m dets rid out = out @ [r] \<and> status_code r = 200 \<and>
       body_field r ''status'' = Some (JStr ''error'') \<and>
       error_field r ''code'' = Some (JStr c) \<and>
       error_field r ''message'' = Some (JStr m)"
  by (simp add: send_error_def send_json_response_def body_field_def error_field_def)

lemma send_error_response:
  "\<exists>r. send_error st c m dets rid out = out @ [r] \<and> status_code r = 200 \<and> error_response r"
  using send_error_shape [of st c m dets rid out]
  by (auto simp: error_response_def)


lemma respond_action_error:
  "\<exists>r. respond_action rid (Inl e) out = out @ [r] \<and> status_code r = 200 \<and> error_response r"
  by (cases e) (simp_all add: respond_action_def send_error_response)

lemma respond_action_code:
  "\<exists>r. respond_action rid (Inl e) out = out @ [r] \<and>
       error_field r ''code'' = Some (JStr (if is_bridge_error e then code e else ''E_RUNTIME'')) \<and>
       error_field r ''message'' = Some (JStr (if is_bridge_error e then message e else str_exn e))"
proof (cases e)
  case (ValidationError m f)
  then show ?thesis
    using send_error_shape [of 200 "code e" "message e" "details e" rid out]
    by (auto simp: respond_action_def)
next
  case (FusionAPIError m operation)
  then show ?thesis
    using send_error_shape [of 200 "code e" "message e" "details e" rid out]
    by (auto simp: respond_action_def)
next
  case (ActionNotSupportedError a)
  then show ?thesis
    using send_error_shape [of 200 "code e" "message e" "[]" rid out]
    by (auto simp: respond_action_def)
next
  case (Builtin k m)
  then show ?thesis
    using send_error_shape [of 200 "''E_RUNTIME''" "str_exn e" "[]" rid out]
    by (auto simp: respond_action_def)
qed





lemmas bridge_defs =
  do_POST_def do_GET_def check_auth_def execute_endpoint_def respond_action_def
  send_error_def send_json_response_def handle_action_def get_handler_def handle_def
  translate_def dict_get_def dict_get_default_def quoted_def
  body_field_def error_field_def sent_codes_def error_response_def ok_response_def

lemmas sample_defs =
  counting_handler_def sample_registry_def shipped_config_def token_config_def
  post_json_def post_text_def get_request_def call_def idle_fusion_def


subsection \<open>Error codes\<close>

lemma send_error_within:
  assumes "c \<in> set cs"
  shows "\<exists>r. send_error st c m dets rid out = out @ [r] \<and> status_and_code cs r"
  using send_error_shape [of st c m dets rid out] assms
  by (auto simp: status_and_code_def carries_code_def)

lemma respond_action_within:
  assumes "\<And>e. outcome = Inl e \<Longrightarrow> is_bridge_error e \<Longrightarrow> code e \<in> set cs"
    and "''E_RUNTIME'' \<in> set cs"
  shows "\<exists>r. respond_action rid outcome out = out @ [r] \<and> status_and_code cs r"
proof (cases outcome)
  case (Inr result)
  then show ?thesis
    by (simp add: respond_action_def send_json_response_def status_and_code_def
        error_field_def body_field_def)
next
  case (Inl e)
  from respond_action_code [of rid e out]
  obtain r where r: "respond_action rid (Inl e) out = out @ [r]"
    "error_field r ''code'' = Some (JStr (if is_bridge_error e then code e else ''E_RUNTIME''))"
    by blast
  from respond_action_error [of rid e out] r(1) have "error_response r" by auto
  then have "body_field r ''status'' = Some (JStr ''error'')"
    by (simp add: error_response_def)
  moreover from r(2) assms Inl have "carries_code cs r"
    by (auto simp: carries_code_def)
  ultimately show ?thesis using r(1) Inl
    by (auto simp: status_and_code_def)
qed

lemma handle_action_codes:
  assumes "handle_action str_of reg action args s = (Inl e, s')" and "is_bridge_error e"
  shows "code e \<in> {''E_BAD_ARGS'', ''E_RUNTIME'', ''E_ACTION_UNSUPPORTED''}"
proof (cases "get_handler str_of reg action")
  case (Inl e0)
  with assms have "e = e0" by (simp add: handle_action_def)
  with Inl assms(2) show ?thesis
    by (auto simp: get_handler_def split: json.splits option.splits)
next
  case (Inr h)
  with assms have "handle h args s = (Inl e, s')" by (simp add: handle_action_def)
  from handle_error_code [OF this] show ?thesis by auto
qed

lemma execute_endpoint_within:
  "\<exists>r s'. execute_endpoint str_of reg req s out = (out @ [r], s') \<and> status_and_code server_codes r"
proof -
  have se: "\<And>c m rid. c \<in> set server_codes \<Longrightarrow>
              \<exists>r. send_error 200 c m [] rid out = out @ [r] \<and> status_and_code server_codes r"
    by (rule send_error_within)
  have ra: "\<And>rid action args.
              \<exists>r. respond_action rid (fst (handle_action str_of reg action args s)) out = out @ [r] \<and>
                  status_and_code server_codes r"
  proof -
    fix rid action args
    show "\<exists>r. respond_action rid (fst (handle_action str_of reg action args s)) out = out @ [r] \<and>
                  status_and_code server_codes r"
    proof (rule respond_action_within)
      fix e assume "fst (handle_action str_of reg action args s) = Inl e" "is_bridge_error e"
      then have "code e \<in> {''E_BAD_ARGS'', ''E_RUNTIME'', ''E_ACTION_UNSUPPORTED''}"
        using handle_action_codes [of str_of reg action args s e "snd (handle_action str_of reg action args s)"]
        by (metis prod.collapse)
      then show "code e \<in> set server_codes"
        by (auto simp: server_codes_def taxonomy_codes_def)
    qed (simp add: server_codes_def taxonomy_codes_def)
  qed
  have codes: "''E_RUNTIME'' \<in> set server_codes" "''E_BAD_ARGS'' \<in> set server_codes"
    "''E_BAD_JSON'' \<in> set server_codes"
    by (simp_all add: server_codes_def taxonomy_codes_def)
  show ?thesis
    unfolding execute_endpoint_def
    using se [OF codes(1)] se [OF codes(2)] se [OF codes(3)] ra
    by (auto split: sum.splits decode_error.splits json.splits prod.splits simp: Let_def)
      (metis fst_conv)+
qed

lemma do_POST_cases:
  "(\<exists>c m. c \<in> {''E_UNAUTHORIZED'', ''E_RUNTIME'', ''E_NOT_FOUND''} \<and>
      do_POST str_of cfg reload reg req s out = (send_error 200 c m [] JNull out, reg, s)) \<or>
   (\<exists>rg. do_POST str_of cfg reload reg req s out =
      (send_json_response 200 (JObj [(''status'', JStr ''ok''), (''reloaded'', JBool True)]) out, rg, s)) \<or>
   (\<exists>out2 s'. execute_endpoint str_of reg req s out = (out2, s') \<and>
      do_POST str_of cfg reload reg req s out = (out2, reg, s'))"
proof (cases "fst (check_auth cfg req out)")
  case False
  then have "do_POST str_of cfg reload reg req s out =
               (send_error 200 ''E_UNAUTHORIZED''
                  ''Invalid or missing X-Bridge-Token header'' [] JNull out, reg, s)"
    by (auto simp: do_POST_def check_auth_def split: option.splits if_splits)
  then show ?thesis by blast
next
  case True
  then have ca: "check_auth cfg req out = (True, out)"
    by (auto simp: check_auth_def split: option.splits if_splits)
  show ?thesis
  proof (cases "url_path req")
    case (Inl err)
    with ca have "do_POST str_of cfg reload reg req s out =
                    (send_error 200 ''E_RUNTIME'' err [] JNull out, reg, s)"
      by (simp add: do_POST_def)
    then show ?thesis by blast
  next
    case (Inr p)
    consider (reload) "p = ''/dev/reload''" | (other) "p \<noteq> ''/dev/reload''" "p \<noteq> ''/v1/execute''"
      | (exec) "p = ''/v1/execute''"
      by blast
    then show ?thesis
    proof cases
      case reload
      show ?thesis
      proof (cases "dev_reload_enabled cfg")
        case False
        with ca Inr reload have "do_POST str_of cfg reload reg req s out =
          (send_error 200 ''E_UNAUTHORIZED''
             ''Dev reload disabled (set BRIDGE_DEV_RELOAD=1 or config.DEV_RELOAD_ENABLED=True)''
             [] JNull out, reg, s)"
          by (simp add: do_POST_def)
        then show ?thesis by blast
      next
        case True
        show ?thesis
        proof (cases reload)
          case (Inl err)
          with ca \<open>url_path req = Inr p\<close> \<open>p = ''/dev/reload''\<close> True
          have "do_POST str_of cfg reload reg req s out =
                  (send_error 200 ''E_RUNTIME'' err [] JNull out, reg, s)"
            by (simp add: do_POST_def)
          then show ?thesis by blast
        next
          case (Inr new_registry)
          with ca \<open>url_path req = Inr p\<close> \<open>p = ''/dev/reload''\<close> True
          have "do_POST str_of cfg reload reg req s out =
                  (send_json_response 200
                     (JObj [(''status'', JStr ''ok''), (''reloaded'', JBool True)]) out,
                   new_registry, s)"
            by (simp add: do_POST_def)
          then show ?thesis by blast
        qed
      qed
    next
      case other
      with ca Inr have "do_POST str_of cfg reload reg req s out =
                     (send_error 200 ''E_NOT_FOUND'' ''Endpoint not found'' [] JNull out, reg, s)"
        by (simp add: do_POST_def)
      then show ?thesis by blast
    next
      case exec
      obtain out2 s' where e: "execute_endpoint str_of reg req s out = (out2, s')"
        by (cases "execute_endpoint str_of reg req s out") blast
      with ca Inr exec have "do_POST str_of cfg reload reg req s out = (out2, reg, s')"
        by (simp add: do_POST_def)
      with e show ?thesis by blast
    qed
  qed
qed

lemma do_POST_within:
  "\<forall>r \<in> set (fst (do_POST str_of cfg reload reg req s [])). status_and_code server_codes r"
proof -
  have se: "\<And>c m. c \<in> {''E_UNAUTHORIZED'', ''E_RUNTIME'', ''E_NOT_FOUND''} \<Longrightarrow>
              \<exists>r. send_error 200 c m [] JNull [] = [r] \<and> status_and_code server_codes r"
  proof -
    fix c :: string and m
    assume "c \<in> {''E_UNAUTHORIZED'', ''E_RUNTIME'', ''E_NOT_FOUND''}"
    then have "c \<in> set server_codes"
      by (auto simp: server_codes_def taxonomy_codes_def)
    from send_error_within [OF this, of 200 m "[]" JNull "[]"]
    show "\<exists>r. send_error 200 c m [] JNull [] = [r] \<and> status_and_code server_codes r"
      by simp
  qed
  have ok: "status_and_code server_codes
              \<lparr>status_code = 200, body = JObj [(''status'', JStr ''ok''), (''reloaded'', JBool True)]\<rparr>"
    by (simp add: status_and_code_def carries_code_def error_field_def body_field_def)
  from execute_endpoint_within [of str_of reg req s "[]"]
  obtain r0 s0 where ee: "execute_endpoint str_of reg req s [] = ([r0], s0)"
    "status_and_code server_codes r0"
    by auto
  from do_POST_cases [of str_of cfg reload reg req s "[]"]
  show ?thesis
  proof (elim disjE exE conjE)
    fix c m
    assume "c \<in> {''E_UNAUTHORIZED'', ''E_RUNTIME'', ''E_NOT_FOUND''}"
      "do_POST str_of cfg reload reg req s [] = (send_error 200 c m [] JNull [], reg, s)"
    with se [of c m] show ?thesis by auto
  next
    fix rg
    assume "do_POST str_of cfg reload reg req s [] =
      (send_json_response 200 (JObj [(''status'', JStr ''ok''), (''reloaded'', JBool True)]) [], rg, s)"
    with ok show ?thesis by (simp add: send_json_response_def)
  next
    fix out2 s'
    assume "execute_endpoint str_of reg req s [] = (out2, s')"
      "do_POST str_of cfg reload reg req s [] = (out2, reg, s')"
    with ee show ?thesis by simp
  qed
qed

lemma do_GET_within:
  "\<forall>r \<in> set (do_GET cfg fusion req []). status_and_code server_codes r"
proof -
  have se: "\<exists>r. send_error 200 ''E_UNAUTHORIZED'' ''Invalid or missing X-Bridge-Token header''
                  [] JNull [] = [r] \<and> status_and_code server_codes r"
    using send_error_within [where out = "[]" and c = "''E_UNAUTHORIZED''" and cs = server_codes]
    by (simp add: server_codes_def taxonomy_codes_def)
  have other: "\<And>st c m. c \<in> {''E_INTERNAL'', ''E_NOT_FOUND''} \<Longrightarrow>
     status_and_code server_codes \<lparr>status_code = st, body = JObj [(''status'', JStr ''error''),
                        (''error'', JObj [(''code'', JStr c), (''message'', JStr m)])]\<rparr>"
    by (auto simp: status_and_code_def carries_code_def error_field_def body_field_def
        server_codes_def taxonomy_codes_def)
  have ok: "\<And>v f. status_and_code server_codes \<lparr>status_code = 200, body = JObj [(''status'', JStr ''ok''),
                             (''version'', v), (''fusion'', f)]\<rparr>"
    by (simp add: status_and_code_def carries_code_def error_field_def body_field_def)
  show ?thesis
  proof (cases "fst (check_auth cfg req [])")
    case False
    then have "do_GET cfg fusion req [] =
               send_error 200 ''E_UNAUTHORIZED''
                  ''Invalid or missing X-Bridge-Token header'' [] JNull []"
      by (auto simp: do_GET_def check_auth_def split: option.splits if_splits)
    with se show ?thesis by auto
  next
    case True
    then have ca: "check_auth cfg req [] = (True, [])"
      by (auto simp: check_auth_def split: option.splits if_splits)
    show ?thesis
    proof (cases "url_path req")
      case (Inl err)
      with ca other [of "''E_INTERNAL''" 500 err] show ?thesis
        by (simp add: do_GET_def send_json_response_def)
    next
      case (Inr p)
      with ca other [of "''E_NOT_FOUND''" 404 "''Endpoint not found''"]
        ok [of "JStr (BRIDGE_VERSION cfg)" fusion]
      show ?thesis
        by (simp add: do_GET_def send_json_response_def)
    qed
  qed
qed

lemma status_and_code_parts:
  assumes "status_and_code cs r"
  shows "(body_field r ''status'' = Some (JStr ''ok'') \<or>
          body_field r ''status'' = Some (JStr ''error'')) \<and>
         (body_field r ''status'' = Some (JStr ''error'') \<longrightarrow> carries_code cs r) \<and>
         codes_within cs r"
proof -
  from assms consider
    (ok) "body_field r ''status'' = Some (JStr ''ok'')" "error_field r ''code'' = None"
    | (err) "body_field r ''status'' = Some (JStr ''error'')" "carries_code cs r"
    by (auto simp: status_and_code_def)
  then show ?thesis
  proof cases
    case ok
    then show ?thesis by (simp add: codes_within_def)
  next
    case err
    then show ?thesis
      by (auto simp: carries_code_def codes_within_def split: option.splits json.splits)
  qed
qed

lemma status_and_code_within:
  "status_and_code cs r \<Longrightarrow> codes_within cs r"
  by (auto simp: status_and_code_def carries_code_def codes_within_def
      split: option.splits json.splits)


text \<open>
  C2, as the code has it.  The server sends seven error codes, not four: besides
  \<^verbatim>\<open>E_BAD_ARGS\<close>, \<^verbatim>\<open>E_RUNTIME\<close>, \<^verbatim>\<open>E_ACTION_UNSUPPORTED\<close> and \<^verbatim>\<open>E_UNAUTHORIZED\<close> there are
  \<^verbatim>\<open>E_NOT_FOUND\<close> (unknown path), \<^verbatim>\<open>E_BAD_JSON\<close> (body that is not JSON) and
  \<^verbatim>\<open>E_INTERNAL\<close> (exception in a GET).  Every response to a GET or a POST has status
  \<^verbatim>\<open>ok\<close> or \<^verbatim>\<open>error\<close>; every response with status \<^verbatim>\<open>error\<close> carries a code, and the
  code is one of the seven; no response carries any other code; and the code and message
  of a \<^verbatim>\<open>BridgeError\<close> raised by the registry reach the caller as they are.
\<close>

theorem server_error_codes:
  "(\<forall>r \<in> set (fst (do_POST str_of cfg reload reg req s [])) \<union> set (do_GET cfg fusion req []).
      (body_field r ''status'' = Some (JStr ''ok'') \<or>
       body_field r ''status'' = Some (JStr ''error'')) \<and>
      (body_field r ''status'' = Some (JStr ''error'') \<longrightarrow> carries_code server_codes r) \<and>
      codes_within server_codes r) \<and>
   (\<forall>n kvs e s'.
      url_path req = Inr ''/v1/execute'' \<and> fst (check_auth cfg req []) \<and>
      content_length req = Inr n \<and> 0 < n \<and> payload req = Inr (JObj kvs) \<and>
      truthy (dict_get kvs ''action'') \<and>
      handle_action str_of reg (dict_get kvs ''action'')
        (dict_get_default kvs ''args'' (JObj [])) s = (Inl e, s') \<and>
      is_bridge_error e \<longrightarrow>
      (\<exists>r. do_POST str_of cfg reload reg req s [] = ([r], reg, s') \<and>
           error_field r ''code'' = Some (JStr (code e)) \<and>
           error_field r ''message'' = Some (JStr (message e))))"
proof (intro conjI allI impI)
  have "\<forall>r \<in> set (fst (do_POST str_of cfg reload reg req s [])) \<union> set (do_GET cfg fusion req []).
          status_and_code server_codes r"
    using do_POST_within [of str_of cfg reload reg req s] do_GET_within [of cfg fusion req]
    by blast
  then show "\<forall>r \<in> set (fst (do_POST str_of cfg reload reg req s [])) \<union> set (do_GET cfg fusion req []).
      (body_field r ''status'' = Some (JStr ''ok'') \<or>
       body_field r ''status'' = Some (JStr ''error'')) \<and>
      (body_field r ''status'' = Some (JStr ''error'') \<longrightarrow> carries_code server_codes r) \<and>
      codes_within server_codes r"
    using status_and_code_parts [of server_codes] by blast
next
  fix n kvs e s'
  assume a: "url_path req = Inr ''/v1/execute'' \<and> fst (check_auth cfg req []) \<and>
      content_length req = Inr n \<and> 0 < n \<and> payload req = Inr (JObj kvs) \<and>
      truthy (dict_get kvs ''action'') \<and>
      handle_action str_of reg (dict_get kvs ''action'')
        (dict_get_default kvs ''args'' (JObj [])) s = (Inl e, s') \<and>
      is_bridge_error e"
  then have ca: "check_auth cfg req [] = (True, [])"
    by (auto simp: check_auth_def split: option.splits if_splits)
  from a have ee: "execute_endpoint str_of reg req s [] =
                     (respond_action (dict_get kvs ''id'') (Inl e) [], s')"
    by (simp add: execute_endpoint_def)
  from ca ee a have "do_POST str_of cfg reload reg req s [] =
                       (respond_action (dict_get kvs ''id'') (Inl e) [], reg, s')"
    by (simp add: do_POST_def)
  with respond_action_code [of "dict_get kvs ''id''" e "[]"] a
  show "\<exists>r. do_POST str_of cfg reload reg req s [] = ([r], reg, s') \<and>
           error_field r ''code'' = Some (JStr (code e)) \<and>
           error_field r ''message'' = Some (JStr (message e))"
    by auto
qed

theorem server_error_codes_witness:
  "list_all (carries_code server_codes)
     (fst (do_POST example_str shipped_config (Inl []) sample_registry
             (post_json ''/v1/execute'' (call ''echo'' JNull)) 0 [])) \<and>
   list_all (carries_code server_codes)
     (do_GET shipped_config idle_fusion (get_request (Inr ''/v1/execute'')) []) \<and>
   list_all (carries_code server_codes)
     (do_GET shipped_config idle_fusion (get_request (Inl ''Invalid IPv6 URL'')) []) \<and>
   (\<exists>r. do_POST example_str shipped_config (Inl []) sample_registry
             (post_json ''/v1/execute'' (call ''echo'' JNull)) 0 [] = ([r], sample_registry, 1) \<and>
        error_field r ''code'' = Some (JStr ''E_BAD_ARGS'') \<and>
        error_field r ''message'' = Some (JStr ''args required''))"
proof -
  have e1: "\<forall>r \<in> set (fst (do_POST example_str shipped_config (Inl []) sample_registry
             (post_json ''/v1/execute'' (call ''echo'' JNull)) 0 [])).
          body_field r ''status'' = Some (JStr ''error'')"
    by (simp add: bridge_defs sample_defs)
  from server_error_codes [of example_str shipped_config "Inl []" sample_registry
      "post_json ''/v1/execute'' (call ''echo'' JNull)" 0 idle_fusion]
  have "\<forall>r \<in> set (fst (do_POST example_str shipped_config (Inl []) sample_registry
             (post_json ''/v1/execute'' (call ''echo'' JNull)) 0 [])).
          body_field r ''status'' = Some (JStr ''error'') \<longrightarrow> carries_code server_codes r"
    by blast
  with e1 have 1: "list_all (carries_code server_codes)
     (fst (do_POST example_str shipped_config (Inl []) sample_registry
             (post_json ''/v1/execute'' (call ''echo'' JNull)) 0 []))"
    by (simp add: list_all_iff)
  have e2: "\<forall>r \<in> set (do_GET shipped_config idle_fusion (get_request (Inr ''/v1/execute'')) []).
          body_field r ''status'' = Some (JStr ''error'')"
    by (simp add: bridge_defs sample_defs)
  from server_error_codes [of example_str shipped_config "Inl []" sample_registry
      "get_request (Inr ''/v1/execute'')" 0 idle_fusion]
  have "\<forall>r \<in> set (do_GET shipped_config idle_fusion (get_request (Inr ''/v1/execute'')) []).
          body_field r ''status'' = Some (JStr ''error'') \<longrightarrow> carries_code server_codes r"
    by blast
  with e2 have 2: "list_all (carries_code server_codes)
     (do_GET shipped_config idle_fusion (get_request (Inr ''/v1/execute'')) [])"
    by (simp add: list_all_iff)
  have e3: "\<forall>r \<in> set (do_GET shipped_config idle_fusion (get_request (Inl ''Invalid IPv6 URL'')) []).
          body_field r ''status'' = Some (JStr ''error'')"
    by (simp add: bridge_defs sample_defs)
  from server_error_codes [of example_str shipped_config "Inl []" sample_registry
      "get_request (Inl ''Invalid IPv6 URL'')" 0 idle_fusion]
  have "\<forall>r \<in> set (do_GET shipped_config idle_fusion (get_request (Inl ''Invalid IPv6 URL'')) []).
          body_field r ''status'' = Some (JStr ''error'') \<longrightarrow> carries_code server_codes r"
    by blast
  with e3 have 3: "list_all (carries_code server_codes)
     (do_GET shipped_config idle_fusion (get_request (Inl ''Invalid IPv6 URL'')) [])"
    by (simp add: list_all_iff)
  have hyp: "url_path (post_json ''/v1/execute'' (call ''echo'' JNull)) = Inr ''/v1/execute'' \<and>
      fst (check_auth shipped_config (post_json ''/v1/execute'' (call ''echo'' JNull)) []) \<and>
      content_length (post_json ''/v1/execute'' (call ''echo'' JNull)) = Inr 64 \<and> (0::int) < 64 \<and>
      payload (post_json ''/v1/execute'' (call ''echo'' JNull)) =
        Inr (JObj [(''action'', JStr ''echo''), (''args'', JNull)]) \<and>
      truthy (dict_get [(''action'', JStr ''echo''), (''args'', JNull)] ''action'') \<and>
      handle_action example_str sample_registry
        (dict_get [(''action'', JStr ''echo''), (''args'', JNull)] ''action'')
        (dict_get_default [(''action'', JStr ''echo''), (''args'', JNull)] ''args'' (JObj [])) 0 =
        (Inl (ValidationError ''args required'' None), 1) \<and>
      is_bridge_error (ValidationError ''args required'' None)"
    by (simp add: bridge_defs sample_defs)
  from server_error_codes [of example_str shipped_config "Inl []" sample_registry
      "post_json ''/v1/execute'' (call ''echo'' JNull)" 0 idle_fusion] hyp
  have "\<exists>r. do_POST example_str shipped_config (Inl []) sample_registry
             (post_json ''/v1/execute'' (call ''echo'' JNull)) 0 [] = ([r], sample_registry, 1) \<and>
        error_field r ''code'' = Some (JStr (code (ValidationError ''args required'' None))) \<and>
        error_field r ''message'' = Some (JStr (message (ValidationError ''args required'' None)))"
    by blast
  then have 4: "\<exists>r. do_POST example_str shipped_config (Inl []) sample_registry
             (post_json ''/v1/execute'' (call ''echo'' JNull)) 0 [] = ([r], sample_registry, 1) \<and>
        error_field r ''code'' = Some (JStr ''E_BAD_ARGS'') \<and>
        error_field r ''message'' = Some (JStr ''args required'')"
    by simp
  from 1 2 3 4 show ?thesis by blast
qed

text \<open>
  The claim as written, with four codes, fails: a body that is not JSON is answered with
  \<^verbatim>\<open>E_BAD_JSON\<close>, an unknown path with \<^verbatim>\<open>E_NOT_FOUND\<close> (status 404 on a GET), and a GET
  whose path \<^verbatim>\<open>urlparse\<close> rejects with \<^verbatim>\<open>E_INTERNAL\<close>.
\<close>

theorem four_codes_counterexample:
  "sent_codes (fst (do_POST example_str shipped_config (Inl []) sample_registry
                      (post_text ''/v1/execute'') 0 [])) = [Some (JStr ''E_BAD_JSON'')] \<and>
   sent_codes (fst (do_POST example_str shipped_config (Inl []) sample_registry
                      (post_json ''/v1/run'' (call ''echo'' (JInt 7))) 0 [])) =
     [Some (JStr ''E_NOT_FOUND'')] \<and>
   sent_codes (do_GET shipped_config idle_fusion (get_request (Inr ''/status'')) []) =
     [Some (JStr ''E_NOT_FOUND'')] \<and>
   sent_codes (do_GET shipped_config idle_fusion (get_request (Inl ''Invalid IPv6 URL'')) []) =
     [Some (JStr ''E_INTERNAL'')] \<and>
   ''E_BAD_JSON'' \<notin> set taxonomy_codes \<and> ''E_NOT_FOUND'' \<notin> set taxonomy_codes \<and>
   ''E_INTERNAL'' \<notin> set taxonomy_codes"
  by (simp add: bridge_defs sample_defs taxonomy_codes_def)

subsection \<open>Authorisation\<close>

text \<open>
  C5.  With no token configured the check passes and sends nothing.  With a token \<open>t\<close>
  configured the check passes exactly when the request's \<^verbatim>\<open>X-Bridge-Token\<close> header is
  \<open>t\<close>; then the request is served as it would be with the check disabled.  Otherwise
  the only response is the error \<^verbatim>\<open>E_UNAUTHORIZED\<close> and, whatever the registry holds,
  neither the registry nor the host state changes: no handler runs.
\<close>

theorem check_auth_decides:
  "(BRIDGE_AUTH_TOKEN cfg = None \<longrightarrow> check_auth cfg req out = (True, out)) \<and>
   (\<forall>t. BRIDGE_AUTH_TOKEN cfg = Some t \<longrightarrow>
      (fst (check_auth cfg req out) \<longleftrightarrow> x_bridge_token req = Some t) \<and>
      (x_bridge_token req = Some t \<longrightarrow>
         do_POST str_of cfg reload reg req s out =
           do_POST str_of (cfg\<lparr>BRIDGE_AUTH_TOKEN := None\<rparr>) reload reg req s out \<and>
         do_GET cfg fusion req out = do_GET (cfg\<lparr>BRIDGE_AUTH_TOKEN := None\<rparr>) fusion req out) \<and>
      (x_bridge_token req \<noteq> Some t \<longrightarrow>
         (\<exists>r. do_POST str_of cfg reload reg req s out = (out @ [r], reg, s) \<and>
              do_GET cfg fusion req out = out @ [r] \<and>
              status_code r = 200 \<and>
              body_field r ''status'' = Some (JStr ''error'') \<and>
              error_field r ''code'' = Some (JStr ''E_UNAUTHORIZED''))))"
proof (intro conjI allI impI)
  assume "BRIDGE_AUTH_TOKEN cfg = None"
  then show "check_auth cfg req out = (True, out)"
    by (simp add: check_auth_def)
next
  fix t assume "BRIDGE_AUTH_TOKEN cfg = Some t"
  then show "fst (check_auth cfg req out) \<longleftrightarrow> x_bridge_token req = Some t"
    by (simp add: check_auth_def)
next
  fix t assume "BRIDGE_AUTH_TOKEN cfg = Some t" "x_bridge_token req = Some t"
  then show "do_POST str_of cfg reload reg req s out =
           do_POST str_of (cfg\<lparr>BRIDGE_AUTH_TOKEN := None\<rparr>) reload reg req s out"
    by (simp add: do_POST_def check_auth_def split: sum.splits)
next
  fix t assume "BRIDGE_AUTH_TOKEN cfg = Some t" "x_bridge_token req = Some t"
  then show "do_GET cfg fusion req out = do_GET (cfg\<lparr>BRIDGE_AUTH_TOKEN := None\<rparr>) fusion req out"
    by (simp add: do_GET_def check_auth_def split: sum.splits)
next
  fix t assume a: "BRIDGE_AUTH_TOKEN cfg = Some t" "x_bridge_token req \<noteq> Some t"
  from send_error_shape [of 200 "''E_UNAUTHORIZED''"
      "''Invalid or missing X-Bridge-Token header''" "[]" JNull out]
  obtain r where r: "send_error 200 ''E_UNAUTHORIZED''
      ''Invalid or missing X-Bridge-Token header'' [] JNull out = out @ [r]"
    "status_code r = 200" "body_field r ''status'' = Some (JStr ''error'')"
    "error_field r ''code'' = Some (JStr ''E_UNAUTHORIZED'')"
    by blast
  from a r(1) have "do_POST str_of cfg reload reg req s out = (out @ [r], reg, s)"
    "do_GET cfg fusion req out = out @ [r]"
    by (simp_all add: do_POST_def do_GET_def check_auth_def)
  with r show "\<exists>r. do_POST str_of cfg reload reg req s out = (out @ [r], reg, s) \<and>
              do_GET cfg fusion req out = out @ [r] \<and>
              status_code r = 200 \<and>
              body_field r ''status'' = Some (JStr ''error'') \<and>
              error_field r ''code'' = Some (JStr ''E_UNAUTHORIZED'')"
    by blast
qed

theorem check_auth_decides_witness:
  "check_auth shipped_config (post_json ''/v1/execute'' (call ''echo'' (JInt 7))) [] = (True, []) \<and>
   \<not> fst (check_auth token_config (post_json ''/v1/execute'' (call ''echo'' (JInt 7))) []) \<and>
   fst (check_auth token_config
          ((post_json ''/v1/execute'' (call ''echo'' (JInt 7)))\<lparr>x_bridge_token := Some ''s3cret''\<rparr>) []) \<and>
   sent_codes (fst (do_POST example_str token_config (Inl []) sample_registry
                      (post_json ''/v1/execute'' (call ''echo'' (JInt 7))) 0 [])) =
     [Some (JStr ''E_UNAUTHORIZED'')] \<and>
   snd (snd (do_POST example_str token_config (Inl []) sample_registry
               (post_json ''/v1/execute'' (call ''echo'' (JInt 7))) 0 [])) = 0 \<and>
   snd (snd (do_POST example_str token_config (Inl []) sample_registry
               ((post_json ''/v1/execute'' (call ''echo'' (JInt 7)))\<lparr>x_bridge_token := Some ''s3cret''\<rparr>)
               0 [])) = 2"
proof -
  have none: "BRIDGE_AUTH_TOKEN shipped_config = None"
    by (simp add: shipped_config_def)
  have some: "BRIDGE_AUTH_TOKEN token_config = Some ''s3cret''"
    by (simp add: token_config_def shipped_config_def)
  have absent: "x_bridge_token (post_json ''/v1/execute'' (call ''echo'' (JInt 7))) \<noteq> Some ''s3cret''"
    by (simp add: post_json_def)
  have present: "x_bridge_token
      ((post_json ''/v1/execute'' (call ''echo'' (JInt 7)))\<lparr>x_bridge_token := Some ''s3cret''\<rparr>) =
      Some ''s3cret''"
    by simp
  from check_auth_decides [where str_of = example_str and reload = "Inl []" and reg = sample_registry
      and s = 0 and fusion = idle_fusion and out = "[]" and cfg = shipped_config
      and req = "post_json ''/v1/execute'' (call ''echo'' (JInt 7))"] none
  have 1: "check_auth shipped_config (post_json ''/v1/execute'' (call ''echo'' (JInt 7))) [] = (True, [])"
    by blast
  from check_auth_decides [where str_of = example_str and reload = "Inl []" and reg = sample_registry
      and s = 0 and fusion = idle_fusion and out = "[]" and cfg = token_config
      and req = "post_json ''/v1/execute'' (call ''echo'' (JInt 7))"] some absent
  have 2: "\<not> fst (check_auth token_config (post_json ''/v1/execute'' (call ''echo'' (JInt 7))) [])"
    by blast
  from check_auth_decides [where str_of = example_str and reload = "Inl []" and reg = sample_registry
      and s = 0 and fusion = idle_fusion and out = "[]" and cfg = token_config
      and req = "(post_json ''/v1/execute'' (call ''echo'' (JInt 7)))\<lparr>x_bridge_token := Some ''s3cret''\<rparr>"]
    some present
  have 3: "fst (check_auth token_config
          ((post_json ''/v1/execute'' (call ''echo'' (JInt 7)))\<lparr>x_bridge_token := Some ''s3cret''\<rparr>) [])"
    by blast
  from check_auth_decides [where str_of = example_str and reload = "Inl []" and reg = sample_registry
      and s = 0 and fusion = idle_fusion and out = "[]" and cfg = token_config
      and req = "post_json ''/v1/execute'' (call ''echo'' (JInt 7))"] some absent
  obtain r where r: "do_POST example_str token_config (Inl []) sample_registry
        (post_json ''/v1/execute'' (call ''echo'' (JInt 7))) 0 [] = ([] @ [r], sample_registry, 0)"
    "error_field r ''code'' = Some (JStr ''E_UNAUTHORIZED'')"
    by blast
  then have 4: "sent_codes (fst (do_POST example_str token_config (Inl []) sample_registry
                      (post_json ''/v1/execute'' (call ''echo'' (JInt 7))) 0 [])) =
     [Some (JStr ''E_UNAUTHORIZED'')]"
    "snd (snd (do_POST example_str token_config (Inl []) sample_registry
               (post_json ''/v1/execute'' (call ''echo'' (JInt 7))) 0 [])) = 0"
    by (simp_all add: sent_codes_def)
  have 5: "snd (snd (do_POST example_str token_config (Inl []) sample_registry
               ((post_json ''/v1/execute'' (call ''echo'' (JInt 7)))\<lparr>x_bridge_token := Some ''s3cret''\<rparr>)
               0 [])) = 2"
    by (simp add: bridge_defs sample_defs)
  from 1 2 3 4 5 show ?thesis by blast
qed


section \<open>Properties of the entity resolver\<close>

lemma find_body_None: "find_body v bs = None \<longleftrightarrow> (\<forall>x \<in> set bs. JStr (body_name x) \<noteq> v)"
  by (induction bs) auto

lemma find_body_Some:
  "find_body v bs = Some b \<longleftrightarrow>
     (\<exists>pre post. bs = pre @ b # post \<and> JStr (body_name b) = v \<and>
        (\<forall>x \<in> set pre. JStr (body_name x) \<noteq> v))"
proof (induction bs)
  case Nil
  then show ?case by simp
next
  case (Cons a bs)
  show ?case
  proof (cases "JStr (body_name a) = v")
    case True
    have "(\<exists>pre post. a # bs = pre @ b # post \<and> JStr (body_name b) = v \<and>
        (\<forall>x \<in> set pre. JStr (body_name x) \<noteq> v)) \<longleftrightarrow> a = b"
    proof
      assume "\<exists>pre post. a # bs = pre @ b # post \<and> JStr (body_name b) = v \<and>
        (\<forall>x \<in> set pre. JStr (body_name x) \<noteq> v)"
      then obtain pre post where p: "a # bs = pre @ b # post"
        "\<forall>x \<in> set pre. JStr (body_name x) \<noteq> v" by blast
      show "a = b"
      proof (cases pre)
        case Nil
        with p show ?thesis by simp
      next
        case (Cons c cs)
        with p True show ?thesis by auto
      qed
    next
      assume "a = b"
      with True have "a # bs = [] @ b # bs \<and> JStr (body_name b) = v \<and>
        (\<forall>x \<in> set []. JStr (body_name x) \<noteq> v)" by simp
      then show "\<exists>pre post. a # bs = pre @ b # post \<and> JStr (body_name b) = v \<and>
        (\<forall>x \<in> set pre. JStr (body_name x) \<noteq> v)" by blast
    qed
    with True show ?thesis by simp
  next
    case False
    have "(\<exists>pre post. a # bs = pre @ b # post \<and> JStr (body_name b) = v \<and>
        (\<forall>x \<in> set pre. JStr (body_name x) \<noteq> v)) \<longleftrightarrow>
          (\<exists>pre post. bs = pre @ b # post \<and> JStr (body_name b) = v \<and>
        (\<forall>x \<in> set pre. JStr (body_name x) \<noteq> v))"
    proof
      assume "\<exists>pre post. a # bs = pre @ b # post \<and> JStr (body_name b) = v \<and>
        (\<forall>x \<in> set pre. JStr (body_name x) \<noteq> v)"
      then obtain pre post where p: "a # bs = pre @ b # post" "JStr (body_name b) = v"
        "\<forall>x \<in> set pre. JStr (body_name x) \<noteq> v" by blast
      with False obtain cs where "pre = a # cs" by (cases pre) auto
      with p have "bs = cs @ b # post \<and> JStr (body_name b) = v \<and>
        (\<forall>x \<in> set cs. JStr (body_name x) \<noteq> v)" by simp
      then show "\<exists>pre post. bs = pre @ b # post \<and> JStr (body_name b) = v \<and>
        (\<forall>x \<in> set pre. JStr (body_name x) \<noteq> v)" by blast
    next
      assume "\<exists>pre post. bs = pre @ b # post \<and> JStr (body_name b) = v \<and>
        (\<forall>x \<in> set pre. JStr (body_name x) \<noteq> v)"
      then obtain pre post where p: "bs = pre @ b # post" "JStr (body_name b) = v"
        "\<forall>x \<in> set pre. JStr (body_name x) \<noteq> v" by blast
      with False have "a # bs = (a # pre) @ b # post \<and> JStr (body_name b) = v \<and>
        (\<forall>x \<in> set (a # pre). JStr (body_name x) \<noteq> v)" by simp
      then show "\<exists>pre post. a # bs = pre @ b # post \<and> JStr (body_name b) = v \<and>
        (\<forall>x \<in> set pre. JStr (body_name x) \<noteq> v)" by blast
    qed
    with False Cons.IH show ?thesis by simp
  qed
qed

lemma resolve_with_design_eq:
  "resolve_body_ref str_of (Some d) ref =
     (if \<not> is_dict ref then Inl (ValidationError ''bodyRef must be an object'' None)
      else if \<not> truthy (ref_field ref ''component'') \<or> \<not> truthy (ref_field ref ''body'')
      then Inl (ValidationError
                     (''bodyRef requires '' @ quoted ''component'' @ '' and '' @ quoted ''body'')
                     None)
      else if ref_field ref ''component'' \<noteq> JStr (comp_name (rootComponent d))
      then Inl (ValidationError ''Only bodies in the root component are supported in v0'' None)
      else (case find_body (ref_field ref ''body'') (bRepBodies (rootComponent d)) of
              Some b \<Rightarrow> Inr b
            | None \<Rightarrow> Inl (ValidationError
                                   (''Body '' @ quoted (py_str str_of (ref_field ref ''body'')) @
                                    '' not found in component '' @
                                    quoted (py_str str_of (ref_field ref ''component'')))
                                   None)))"
  by (cases ref)
    (simp_all add: resolve_body_ref_def ref_field_def root_component_def context_design_def Let_def
       split: option.splits)

lemma resolve_without_design:
  "is_dict ref \<and> truthy (ref_field ref ''component'') \<and> truthy (ref_field ref ''body'') \<Longrightarrow>
   resolve_body_ref str_of None ref = Inl (FusionAPIError ''No active design document'' None)"
  by (cases ref)
    (simp_all add: resolve_body_ref_def ref_field_def root_component_def context_design_def Let_def)

text \<open>
  C6, as the code has it.  The lookup reads the host state it is given and nothing else.
  With an active design \<open>d\<close>: \<open>resolve_body_ref\<close> returns a body exactly when the ref is
  a dict whose \<^verbatim>\<open>component\<close> and \<^verbatim>\<open>body\<close> are truthy, the component is the name of the
  root component, and the body is the first in the root component's list whose name is
  the \<^verbatim>\<open>body\<close> field; it raises a \<^verbatim>\<open>ValidationError\<close> exactly when the ref is not a
  dict, a field is missing or falsy, the component differs, or no body has that name; and
  it raises nothing else.  With no active design, a ref that is a dict with both fields
  truthy raises the \<^verbatim>\<open>FusionAPIError\<close> of the context (\<^verbatim>\<open>No active design document\<close>),
  and any other ref the \<^verbatim>\<open>ValidationError\<close> of its shape.
\<close>

theorem resolve_body_ref_active:
  "(resolve_body_ref str_of (Some d) ref = Inr b \<longleftrightarrow>
      is_dict ref \<and> truthy (ref_field ref ''component'') \<and> truthy (ref_field ref ''body'') \<and>
      ref_field ref ''component'' = JStr (comp_name (rootComponent d)) \<and>
      (\<exists>pre post. bRepBodies (rootComponent d) = pre @ b # post \<and>
         JStr (body_name b) = ref_field ref ''body'' \<and>
         (\<forall>x \<in> set pre. JStr (body_name x) \<noteq> ref_field ref ''body''))) \<and>
   ((\<exists>m f. resolve_body_ref str_of (Some d) ref = Inl (ValidationError m f)) \<longleftrightarrow>
      \<not> is_dict ref \<or> \<not> truthy (ref_field ref ''component'') \<or>
      \<not> truthy (ref_field ref ''body'') \<or>
      ref_field ref ''component'' \<noteq> JStr (comp_name (rootComponent d)) \<or>
      (\<forall>x \<in> set (bRepBodies (rootComponent d)). JStr (body_name x) \<noteq> ref_field ref ''body'')) \<and>
   (\<forall>e. resolve_body_ref str_of (Some d) ref = Inl e \<longrightarrow>
      is_ValidationError e \<and> code e = ''E_BAD_ARGS'') \<and>
   (is_dict ref \<and> truthy (ref_field ref ''component'') \<and> truthy (ref_field ref ''body'') \<longrightarrow>
      resolve_body_ref str_of None ref = Inl (FusionAPIError ''No active design document'' None)) \<and>
   (\<not> (is_dict ref \<and> truthy (ref_field ref ''component'') \<and> truthy (ref_field ref ''body'')) \<longrightarrow>
      (\<exists>m. resolve_body_ref str_of None ref = Inl (ValidationError m None)))"
proof (intro conjI)
  show "resolve_body_ref str_of (Some d) ref = Inr b \<longleftrightarrow>
      is_dict ref \<and> truthy (ref_field ref ''component'') \<and> truthy (ref_field ref ''body'') \<and>
      ref_field ref ''component'' = JStr (comp_name (rootComponent d)) \<and>
      (\<exists>pre post. bRepBodies (rootComponent d) = pre @ b # post \<and>
         JStr (body_name b) = ref_field ref ''body'' \<and>
         (\<forall>x \<in> set pre. JStr (body_name x) \<noteq> ref_field ref ''body''))"
    unfolding resolve_with_design_eq find_body_Some [symmetric]
    by (auto split: option.splits)
  show "(\<exists>m f. resolve_body_ref str_of (Some d) ref = Inl (ValidationError m f)) \<longleftrightarrow>
      \<not> is_dict ref \<or> \<not> truthy (ref_field ref ''component'') \<or>
      \<not> truthy (ref_field ref ''body'') \<or>
      ref_field ref ''component'' \<noteq> JStr (comp_name (rootComponent d)) \<or>
      (\<forall>x \<in> set (bRepBodies (rootComponent d)). JStr (body_name x) \<noteq> ref_field ref ''body'')"
    unfolding resolve_with_design_eq find_body_None [symmetric]
    by (auto split: option.splits)
  show "\<forall>e. resolve_body_ref str_of (Some d) ref = Inl e \<longrightarrow>
      is_ValidationError e \<and> code e = ''E_BAD_ARGS''"
    unfolding resolve_with_design_eq
    by (auto split: option.splits if_splits)
  show "is_dict ref \<and> truthy (ref_field ref ''component'') \<and> truthy (ref_field ref ''body'') \<longrightarrow>
      resolve_body_ref str_of None ref = Inl (FusionAPIError ''No active design document'' None)"
    using resolve_without_design [of ref str_of] by blast
  show "\<not> (is_dict ref \<and> truthy (ref_field ref ''component'') \<and> truthy (ref_field ref ''body'')) \<longrightarrow>
      (\<exists>m. resolve_body_ref str_of None ref = Inl (ValidationError m None))"
    by (cases ref) (auto simp: resolve_body_ref_def ref_field_def Let_def)
qed

theorem resolve_body_ref_active_witness:
  "resolve_body_ref example_str (Some bracket_design) (body_ref ''Bracket'' ''Plate'') =
     Inr \<lparr>body_name = ''Plate'', entity_token = 2\<rparr> \<and>
   (\<exists>m. resolve_body_ref example_str (Some bracket_design) (body_ref ''Bracket'' ''Lid'') =
          Inl (ValidationError m None)) \<and>
   resolve_body_ref example_str None (body_ref ''Bracket'' ''Plate'') =
     Inl (FusionAPIError ''No active design document'' None)"
proof -
  have shape: "is_dict (body_ref ''Bracket'' ''Plate'')"
    "truthy (ref_field (body_ref ''Bracket'' ''Plate'') ''component'')"
    "truthy (ref_field (body_ref ''Bracket'' ''Plate'') ''body'')"
    "ref_field (body_ref ''Bracket'' ''Plate'') ''component'' =
       JStr (comp_name (rootComponent bracket_design))"
    by (simp_all add: body_ref_def ref_field_def dict_get_def dict_get_default_def
        bracket_design_def)
  have first: "bRepBodies (rootComponent bracket_design) =
          [\<lparr>body_name = ''Body1'', entity_token = 1\<rparr>] @
          \<lparr>body_name = ''Plate'', entity_token = 2\<rparr> # [\<lparr>body_name = ''Plate'', entity_token = 3\<rparr>] \<and>
        JStr (body_name \<lparr>body_name = ''Plate'', entity_token = 2\<rparr>) =
          ref_field (body_ref ''Bracket'' ''Plate'') ''body'' \<and>
        (\<forall>x \<in> set [\<lparr>body_name = ''Body1'', entity_token = 1\<rparr>].
           JStr (body_name x) \<noteq> ref_field (body_ref ''Bracket'' ''Plate'') ''body'')"
    by (simp add: body_ref_def ref_field_def dict_get_def dict_get_default_def bracket_design_def)
  from resolve_body_ref_active [of example_str bracket_design "body_ref ''Bracket'' ''Plate''"
      "\<lparr>body_name = ''Plate'', entity_token = 2\<rparr>"] shape first
  have 1: "resolve_body_ref example_str (Some bracket_design) (body_ref ''Bracket'' ''Plate'') =
     Inr \<lparr>body_name = ''Plate'', entity_token = 2\<rparr>"
    by blast
  have none: "\<forall>x \<in> set (bRepBodies (rootComponent bracket_design)).
                JStr (body_name x) \<noteq> ref_field (body_ref ''Bracket'' ''Lid'') ''body''"
    by (simp add: body_ref_def ref_field_def dict_get_def dict_get_default_def bracket_design_def)
  from resolve_body_ref_active [of example_str bracket_design "body_ref ''Bracket'' ''Lid''"
      "\<lparr>body_name = ''Plate'', entity_token = 2\<rparr>"] none
  obtain m f where m: "resolve_body_ref example_str (Some bracket_design) (body_ref ''Bracket'' ''Lid'') =
          Inl (ValidationError m f)"
    by blast
  moreover have "resolve_body_ref example_str (Some bracket_design) (body_ref ''Bracket'' ''Lid'') =
      Inl (ValidationError (''Body '' @ quoted ''Lid'' @ '' not found in component '' @
                            quoted ''Bracket'') None)"
    by (simp add: resolve_body_ref_def body_ref_def dict_get_def dict_get_default_def
        bracket_design_def root_component_def context_design_def py_str_def)
  ultimately have 2: "\<exists>m. resolve_body_ref example_str (Some bracket_design)
      (body_ref ''Bracket'' ''Lid'') = Inl (ValidationError m None)"
    by simp
  from resolve_body_ref_active [of example_str bracket_design "body_ref ''Bracket'' ''Plate''"
      "\<lparr>body_name = ''Plate'', entity_token = 2\<rparr>"] shape
  have 3: "resolve_body_ref example_str None (body_ref ''Bracket'' ''Plate'') =
     Inl (FusionAPIError ''No active design document'' None)"
    by blast
  from 1 2 3 show ?thesis by blast
qed

text \<open>
  The claim as written leaves no room for a third outcome: a body, or a
  \<^verbatim>\<open>ValidationError\<close>.  With no active design a well-formed ref is answered by the
  \<^verbatim>\<open>FusionAPIError\<close> that \<^verbatim>\<open>FusionContext.design\<close> raises.
\<close>

theorem resolve_body_ref_counterexample:
  "resolve_body_ref example_str None (body_ref ''Bracket'' ''Body1'') =
     Inl (FusionAPIError ''No active design document'' None) \<and>
   \<not> is_ValidationError (FusionAPIError ''No active design document'' None) \<and>
   code (FusionAPIError ''No active design document'' None) = ''E_RUNTIME''"
  by (simp add: resolve_body_ref_def body_ref_def dict_get_def dict_get_default_def
      root_component_def context_design_def)

section \<open>Properties of the action names\<close>

lemma dom_fold_register:
  "dom (fold (register handler_class) xs m) = dom m \<union> set xs"
  by (induction xs arbitrary: m) (auto simp: register_def)

text \<open>
  C7.  The tool names of \<^verbatim>\<open>list_tools\<close>, the keys of \<^verbatim>\<open>_TOOL_HANDLERS\<close> and the action
  names the registry holds after \<^verbatim>\<open>_initialize_handlers\<close> are the same set of 26 names,
  none listed twice, and the handler of every tool forwards to the action of the tool's
  own name.
\<close>

theorem tools_match_actions:
  "set list_tools = set registered_actions \<and>
   set (map fst TOOL_HANDLERS) = set registered_actions \<and>
   map snd TOOL_HANDLERS = map fst TOOL_HANDLERS \<and>
   dom (initialize_handlers handler_class) = set registered_actions \<and>
   distinct list_tools \<and> distinct (map fst TOOL_HANDLERS) \<and> distinct registered_actions \<and>
   length registered_actions = 26"
proof (intro conjI)
  show "set list_tools = set registered_actions" by code_simp
  show "set (map fst TOOL_HANDLERS) = set registered_actions" by code_simp
  show "map snd TOOL_HANDLERS = map fst TOOL_HANDLERS" by (simp add: TOOL_HANDLERS_def)
  show "dom (initialize_handlers handler_class) = set registered_actions"
    by (simp add: initialize_handlers_def dom_fold_register)
  show "distinct list_tools" by code_simp
  show "distinct (map fst TOOL_HANDLERS)" by code_simp
  show "distinct registered_actions" by code_simp
  show "length registered_actions = 26" by (simp add: registered_actions_def)
qed

section \<open>Properties of the validators and of the two creating handlers\<close>

lemma validate_non_negative_int_cases:
  "validate_non_negative_int int_of_str v field_name =
     (case py_int int_of_str v of
        Inr num \<Rightarrow>
          if 0 \<le> num then Inr num
          else Inl (ValidationError (field_name @ '' must be a non-negative integer'') None)
      | Inl e \<Rightarrow>
          if v = JFloat PosInf \<or> v = JFloat NegInf then Inl e
          else Inl (ValidationError (field_name @ '' must be a non-negative integer'') None))"
proof (cases v)
  case (JFloat x)
  then show ?thesis
    by (cases x) (simp_all add: validate_non_negative_int_def py_int_def)
next
  case (JStr x)
  then show ?thesis
    by (cases "int_of_str x") (simp_all add: validate_non_negative_int_def py_int_def)
qed (simp_all add: validate_non_negative_int_def py_int_def)

lemma validate_non_negative_int_fraction:
  "validate_non_negative_int int_of_str (JFloat (Finite (39 / 10))) field_name = Inr 3"
  by (simp add: validate_non_negative_int_def py_int_def py_trunc_def)

text \<open>
  C10.  The claim holds for every value but the two infinite floats (see the two lemmas
  above): on \<^verbatim>\<open>float("inf")\<close> and \<^verbatim>\<open>float("-inf")\<close> the conversion \<^verbatim>\<open>int(value)\<close> fails
  with \<^verbatim>\<open>OverflowError\<close>, which the \<^verbatim>\<open>except (TypeError, ValueError)\<close> clause does not
  catch, so \<open>validate_non_negative_int\<close> raises that error and not a
  \<^verbatim>\<open>ValidationError\<close>.
\<close>

theorem non_negative_int_infinity:
  "py_int int_of_str (JFloat PosInf) =
     Inl (Builtin OverflowError ''cannot convert float infinity to integer'') \<and>
   validate_non_negative_int int_of_str (JFloat PosInf) field_name =
     Inl (Builtin OverflowError ''cannot convert float infinity to integer'') \<and>
   validate_non_negative_int int_of_str (JFloat NegInf) field_name =
     Inl (Builtin OverflowError ''cannot convert float infinity to integer'') \<and>
   \<not> is_ValidationError (Builtin OverflowError ''cannot convert float infinity to integer'')"
  by (simp add: validate_non_negative_int_def py_int_def)

lemma validate_required_fields_cases:
  "(validate_required_fields args req = Inr () \<and> (\<forall>k \<in> set req. map_of args k \<noteq> None)) \<or>
   (\<exists>m. validate_required_fields args req = Inl (ValidationError m None))"
  by (auto simp: validate_required_fields_def Let_def filter_empty_conv)

lemma check_parameter_name_loop_cases:
  "(check_parameter_name_loop n ps = Inr () \<and> n \<notin> param_name ` set ps) \<or>
   (\<exists>m. check_parameter_name_loop n ps = Inl (ValidationError m None) \<and> n \<in> param_name ` set ps)"
  by (induction ps) auto

lemma check_parameter_name_collision_cases:
  "(check_parameter_name_collision n d = Inr () \<and> n \<notin> param_name ` set (userParameters d)) \<or>
   (\<exists>m. check_parameter_name_collision n d = Inl (ValidationError m None) \<and>
        n \<in> param_name ` set (userParameters d))"
  using check_parameter_name_loop_cases [of n "userParameters d"]
  by (auto simp: check_parameter_name_collision_def)

lemma check_sketch_name_collision_cases:
  "(check_sketch_name_collision n sks = Inr () \<and> n \<notin> sketch_name ` set sks) \<or>
   (\<exists>m. check_sketch_name_collision n sks = Inl (ValidationError m None) \<and>
        n \<in> sketch_name ` set sks)"
  by (induction sks) auto

lemma validate_non_empty_string_cases:
  "(\<exists>x. v = JStr x \<and> validate_non_empty_string v f = Inr (py_strip x)) \<or>
   (\<exists>m. validate_non_empty_string v f = Inl (ValidationError m None))"
  by (cases v) (auto simp: validate_non_empty_string_def)

lemma validate_unit_cases:
  "validate_unit u = Inr () \<or> (\<exists>m. validate_unit u = Inl (ValidationError m None))"
  by (cases u) (auto simp: validate_unit_def)

lemma validate_plane_str_cases:
  "(\<exists>q. validate_plane (JStr p) = Inr q) \<or>
   (\<exists>m. validate_plane (JStr p) = Inl (ValidationError m None))"
  by (auto simp: validate_plane_def Let_def)

lemma create_parameter_validate_cases:
  "(\<exists>m. create_parameter_validate str_of args (Some d) = Inl (ValidationError m None)) \<or>
   (\<exists>r n. create_parameter_validate str_of args (Some d) = Inr r \<and>
      map_of args ''name'' = Some (JStr n) \<and>
      py_strip n \<notin> param_name ` set (userParameters d))"
proof -
  consider (missing) m where "validate_required_fields args [''name'', ''expression'', ''unit''] =
        Inl (ValidationError m None)"
    | (present) "validate_required_fields args [''name'', ''expression'', ''unit''] = Inr ()"
        "map_of args ''name'' \<noteq> None" "map_of args ''expression'' \<noteq> None" "map_of args ''unit'' \<noteq> None"
    using validate_required_fields_cases [of args "[''name'', ''expression'', ''unit'']"] by auto
  then show ?thesis
  proof cases
    case missing
    then show ?thesis by (simp add: create_parameter_validate_def exn_bind_def)
  next
    case present
    then obtain vn ve vu where items: "map_of args ''name'' = Some vn"
      "map_of args ''expression'' = Some ve" "map_of args ''unit'' = Some vu"
      by auto
    from validate_non_empty_string_cases [of vn "''name''"] show ?thesis
    proof (elim disjE exE conjE)
      fix m assume "validate_non_empty_string vn ''name'' = Inl (ValidationError m None)"
      with present items show ?thesis
        by (simp add: create_parameter_validate_def exn_bind_def dict_item_def)
    next
      fix x assume x: "vn = JStr x" "validate_non_empty_string vn ''name'' = Inr (py_strip x)"
      from validate_unit_cases [of vu] show ?thesis
      proof (elim disjE exE)
        fix m assume "validate_unit vu = Inl (ValidationError m None)"
        with present items x show ?thesis
          by (simp add: create_parameter_validate_def exn_bind_def dict_item_def Let_def)
      next
        assume u: "validate_unit vu = Inr ()"
        show ?thesis
        proof (cases "dict_get_default args ''comment'' (JStr []) \<noteq> JNull \<and>
                      \<not> is_str (dict_get_default args ''comment'' (JStr []))")
          case True
          with present items x u show ?thesis
            by (simp add: create_parameter_validate_def exn_bind_def dict_item_def Let_def)
        next
          case False
          from check_parameter_name_collision_cases [of "py_strip x" d] show ?thesis
          proof (elim disjE exE conjE)
            fix m assume "check_parameter_name_collision (py_strip x) d = Inl (ValidationError m None)"
            with present items x u False show ?thesis
              by (simp add: create_parameter_validate_def exn_bind_def dict_item_def Let_def
                  context_design_def)
          next
            assume "check_parameter_name_collision (py_strip x) d = Inr ()"
              "py_strip x \<notin> param_name ` set (userParameters d)"
            with present items x u False show ?thesis
              by (simp add: create_parameter_validate_def exn_bind_def dict_item_def Let_def
                  context_design_def)
          qed
        qed
      qed
    qed
  qed
qed

lemma create_sketch_validate_cases:
  assumes plane: "map_of args ''plane'' = Some (JStr p)"
  shows "(\<exists>m. create_sketch_validate args (Some d) = Inl (ValidationError m None)) \<or>
   (\<exists>r n. create_sketch_validate args (Some d) = Inr r \<and>
      map_of args ''name'' = Some (JStr n) \<and>
      py_strip n \<notin> sketch_name ` set (sketches (rootComponent d)))"
proof -
  consider (missing) m where "validate_required_fields args [''plane'', ''name''] =
        Inl (ValidationError m None)"
    | (present) "validate_required_fields args [''plane'', ''name''] = Inr ()"
        "map_of args ''name'' \<noteq> None"
    using validate_required_fields_cases [of args "[''plane'', ''name'']"] by auto
  then show ?thesis
  proof cases
    case missing
    then show ?thesis by (simp add: create_sketch_validate_def exn_bind_def)
  next
    case present
    then obtain vn where items: "map_of args ''name'' = Some vn" by auto
    from validate_plane_str_cases [of p] show ?thesis
    proof (elim disjE exE)
      fix m assume "validate_plane (JStr p) = Inl (ValidationError m None)"
      with present plane show ?thesis
        by (simp add: create_sketch_validate_def exn_bind_def dict_item_def)
    next
      fix q assume q: "validate_plane (JStr p) = Inr q"
      from validate_non_empty_string_cases [of vn "''name''"] show ?thesis
      proof (elim disjE exE conjE)
        fix m assume "validate_non_empty_string vn ''name'' = Inl (ValidationError m None)"
        with present plane items q show ?thesis
          by (simp add: create_sketch_validate_def exn_bind_def dict_item_def)
      next
        fix x assume x: "vn = JStr x" "validate_non_empty_string vn ''name'' = Inr (py_strip x)"
        from check_sketch_name_collision_cases [of "py_strip x" "sketches (rootComponent d)"]
        show ?thesis
        proof (elim disjE exE conjE)
          fix m assume "check_sketch_name_collision (py_strip x) (sketches (rootComponent d)) =
                          Inl (ValidationError m None)"
          with present plane items q x show ?thesis
            by (simp add: create_sketch_validate_def exn_bind_def dict_item_def
                root_component_def context_design_def)
        next
          assume "check_sketch_name_collision (py_strip x) (sketches (rootComponent d)) = Inr ()"
            "py_strip x \<notin> sketch_name ` set (sketches (rootComponent d))"
          with present plane items q x show ?thesis
            by (simp add: create_sketch_validate_def exn_bind_def dict_item_def
                root_component_def context_design_def)
        qed
      qed
    qed
  qed
qed

lemma create_parameter_execute_error:
  "create_parameter_execute api args s = (Inl e, s') \<Longrightarrow> \<not> is_ValidationError e"
  by (auto simp: create_parameter_execute_def exn_bind_def context_design_def dict_item_def
      split: option.splits sum.splits prod.splits)

lemma create_sketch_execute_error:
  "create_sketch_execute api args s = (Inl e, s') \<Longrightarrow> \<not> is_ValidationError e"
  by (auto simp: create_sketch_execute_def exn_bind_def context_design_def dict_item_def
      split: option.splits sum.splits prod.splits if_splits)

lemmas handler_defs =
  handle_def translate_def CreateParameterHandler_def CreateSketchHandler_def
  create_parameter_validate_def create_parameter_execute_def
  create_sketch_validate_def create_sketch_execute_def
  exn_bind_def dict_item_def dict_get_def dict_get_default_def
  validate_required_fields_def validate_non_empty_string_def validate_unit_def
  validate_plane_def check_parameter_name_collision_def
  context_design_def root_component_def
  py_strip_def py_isspace_def py_upper_def py_upper_char_def py_str_def quoted_def
  ALLOWED_UNITS_def ALLOWED_PLANES_def

lemma name_collision_validation_error:
  "(\<forall>n d. s = Some d \<and> map_of args ''name'' = Some (JStr n) \<and>
          py_strip n \<in> param_name ` set (userParameters d) \<longrightarrow>
      (\<exists>e. handle (CreateParameterHandler str_of api) args s = (Inl e, s) \<and>
           is_ValidationError e \<and> code e = ''E_BAD_ARGS'')) \<and>
   (\<forall>n p d. s = Some d \<and> map_of args ''name'' = Some (JStr n) \<and>
          map_of args ''plane'' = Some (JStr p) \<and>
          py_strip n \<in> sketch_name ` set (sketches (rootComponent d)) \<longrightarrow>
      (\<exists>e. handle (CreateSketchHandler api) args s = (Inl e, s) \<and>
           is_ValidationError e \<and> code e = ''E_BAD_ARGS''))"
proof (intro conjI allI impI)
  fix n d
  assume a: "s = Some d \<and> map_of args ''name'' = Some (JStr n) \<and>
          py_strip n \<in> param_name ` set (userParameters d)"
  with create_parameter_validate_cases [of str_of args d]
  obtain m where "create_parameter_validate str_of args s = Inl (ValidationError m None)"
    by auto
  then have "handle (CreateParameterHandler str_of api) args s = (Inl (ValidationError m None), s)"
    by (simp add: handle_def CreateParameterHandler_def translate_def)
  then show "\<exists>e. handle (CreateParameterHandler str_of api) args s = (Inl e, s) \<and>
           is_ValidationError e \<and> code e = ''E_BAD_ARGS''"
    by simp
next
  fix n p d
  assume a: "s = Some d \<and> map_of args ''name'' = Some (JStr n) \<and>
          map_of args ''plane'' = Some (JStr p) \<and>
          py_strip n \<in> sketch_name ` set (sketches (rootComponent d))"
  then have "map_of args ''plane'' = Some (JStr p)" by simp
  from create_sketch_validate_cases [OF this, of d] a
  obtain m where "create_sketch_validate args s = Inl (ValidationError m None)"
    by auto
  then have "handle (CreateSketchHandler api) args s = (Inl (ValidationError m None), s)"
    by (simp add: handle_def CreateSketchHandler_def translate_def)
  then show "\<exists>e. handle (CreateSketchHandler api) args s = (Inl e, s) \<and>
           is_ValidationError e \<and> code e = ''E_BAD_ARGS''"
    by simp
qed

lemma validation_failure_skips_host:
  "(create_parameter_validate str_of args s = Inl e \<longrightarrow>
      handle (CreateParameterHandler str_of api) args s = (Inl (translate e), s)) \<and>
   (create_sketch_validate args s = Inl e \<longrightarrow>
      handle (CreateSketchHandler api) args s = (Inl (translate e), s))"
  by (simp add: handle_def CreateParameterHandler_def CreateSketchHandler_def)

lemma create_parameter_error_keeps_state:
  assumes host: "\<And>name expression unit comment d err d'.
      userParameters_add api name expression unit comment d = (Inl err, d') \<Longrightarrow> d' = d"
    and h: "handle (CreateParameterHandler str_of api) args s = (Inl e, s')"
  shows "s' = s"
proof (cases "create_parameter_validate str_of args s")
  case (Inl e0)
  with h show ?thesis by (simp add: handle_def CreateParameterHandler_def)
next
  case (Inr v)
  with h obtain e0 where x: "create_parameter_execute api v s = (Inl e0, s')"
    by (auto simp: handle_def CreateParameterHandler_def split: prod.splits sum.splits)
  then show ?thesis
    using host
    by (auto simp: create_parameter_execute_def exn_bind_def context_design_def dict_item_def
        split: option.splits sum.splits prod.splits)
qed

lemma name_collision_examples:
  "handle (CreateParameterHandler example_str list_api)
     [(''name'', JStr '' width ''), (''expression'', JStr ''12''), (''unit'', JStr ''mm'')]
     (Some bracket_design) =
     (Inl (ValidationError (''Parameter '' @ quoted ''width'' @ '' already exists'') None),
      Some bracket_design) \<and>
   handle (CreateSketchHandler list_api)
     [(''plane'', JStr ''xy''), (''name'', JStr ''Base'')] (Some bracket_design) =
     (Inl (ValidationError (''Sketch '' @ quoted ''Base'' @ '' already exists'') None),
      Some bracket_design)"
  by (simp add: handler_defs bracket_design_def list_api_def)

text \<open>
  C9.  The claim holds of \<open>create_parameter\<close>, and of \<open>create_sketch\<close> when the requested
  plane is a string: the collision is answered with a \<^verbatim>\<open>ValidationError\<close>, code
  \<^verbatim>\<open>E_BAD_ARGS\<close>, raised during validation with the design untouched (the lemmas above).
  It fails of \<open>create_sketch\<close> when the plane is not a string.  \<^verbatim>\<open>validate_plane\<close>
  calls \<^verbatim>\<open>plane.upper()\<close> with no type check, unlike \<^verbatim>\<open>validate_unit\<close> beside it, so
  \<^verbatim>\<open>AttributeError\<close> is raised before the collision check is reached and
  \<^verbatim>\<open>BaseHandler.handle\<close> reports it as \<^verbatim>\<open>E_RUNTIME\<close>: the request for the plane 5 and
  the name of an existing sketch gets no \<^verbatim>\<open>ValidationError\<close>, whatever the host.  The same
  request with the plane \<^verbatim>\<open>XY\<close> gets the one the claim describes.
\<close>

theorem create_sketch_plane_not_string:
  "''Base'' \<in> sketch_name ` set (sketches (rootComponent bracket_design)) \<and>
   validate_plane (JInt 5) =
     Inl (Builtin AttributeError
            (quoted ''int'' @ '' object has no attribute '' @ quoted ''upper'')) \<and>
   handle (CreateSketchHandler api)
     [(''plane'', JInt 5), (''name'', JStr ''Base'')] (Some bracket_design) =
     (Inl (FusionAPIError (''Operation failed: '' @ quoted ''int'' @
                           '' object has no attribute '' @ quoted ''upper'') None),
      Some bracket_design) \<and>
   \<not> is_ValidationError
        (FusionAPIError (''Operation failed: '' @ quoted ''int'' @
                         '' object has no attribute '' @ quoted ''upper'') None) \<and>
   code (FusionAPIError (''Operation failed: '' @ quoted ''int'' @
                         '' object has no attribute '' @ quoted ''upper'') None) = ''E_RUNTIME'' \<and>
   handle (CreateSketchHandler api)
     [(''plane'', JStr ''XY''), (''name'', JStr ''Base'')] (Some bracket_design) =
     (Inl (ValidationError (''Sketch '' @ quoted ''Base'' @ '' already exists'') None),
      Some bracket_design)"
  by (simp add: handler_defs bracket_design_def)

end
